theory Spec2Isabelle
  imports Complex_Main "HOL-Library.Log_Nat" "HOL-Library.Sublist"
begin

section \<open>JavaScript strings\<close>

text \<open>
  Strings are \<^typ>\<open>string\<close>; every \<^typ>\<open>char\<close> stands for the UTF-16 code unit of
  the same number. The embedding is exact on ASCII text (addresses, hashes, month keys
  and decimal literals are ASCII); upper and lower casing of code units beyond ASCII
  follows Unicode tables that are not part of the repository, so the theorems about
  casing carry the hypothesis \<open>ascii\<close>.
\<close>

definition ascii :: "string \<Rightarrow> bool" where
  "ascii s = (\<forall>c \<in> set s. (of_char c :: int) < 128)"

definition is_space :: "char \<Rightarrow> bool" where
  \<comment> \<open>the class \<open>\s\<close> of a JavaScript regular expression, on code units below 256:
      TAB, LF, VT, FF, CR, SPACE and NBSP\<close>
  "is_space c = ((of_char c :: int) \<in> {9, 10, 11, 12, 13, 32, 160})"

definition toUpperCase_char :: "char \<Rightarrow> char" where
  "toUpperCase_char c =
     (let n = (of_char c :: int) in if 97 \<le> n \<and> n \<le> 122 then char_of (n - 32) else c)"

definition toLowerCase_char :: "char \<Rightarrow> char" where
  "toLowerCase_char c =
     (let n = (of_char c :: int) in if 65 \<le> n \<and> n \<le> 90 then char_of (n + 32) else c)"

definition toUpperCase :: "string \<Rightarrow> string" where
  "toUpperCase s = map toUpperCase_char s"

definition toLowerCase :: "string \<Rightarrow> string" where
  "toLowerCase s = map toLowerCase_char s"

definition strip_spaces :: "string \<Rightarrow> string" where
  \<comment> \<open>\<open>s.replace(/\s+/g, "")\<close> and \<open>s.replace(/\s/g, "")\<close>: both delete every
      white-space code unit\<close>
  "strip_spaces s = filter (\<lambda>c. \<not> is_space c) s"

definition trim :: "string \<Rightarrow> string" where
  \<comment> \<open>\<open>String.prototype.trim\<close>\<close>
  "trim s = rev (dropWhile is_space (rev (dropWhile is_space s)))"

definition normalizeAcc :: "string \<Rightarrow> string" where
  \<comment> \<open>\<open>findOrCreatePartnerBank\<close>: \<open>iban.replace(/\s+/g, "").toUpperCase()\<close>\<close>
  "normalizeAcc iban = toUpperCase (strip_spaces iban)"

definition normalizeIban :: "string \<Rightarrow> string" where
  \<comment> \<open>server.ts: \<open>iban.toUpperCase().replace(/\s/g, "")\<close>\<close>
  "normalizeIban iban = strip_spaces (toUpperCase iban)"

definition same_modulo_case_and_space :: "string \<Rightarrow> string \<Rightarrow> bool" where
  \<comment> \<open>the claim's words: two raw addresses that differ only in letter case or white space\<close>
  "same_modulo_case_and_space a b =
     (toLowerCase (strip_spaces a) = toLowerCase (strip_spaces b))"

section \<open>JavaScript numbers, BigInt and decimal strings\<close>

datatype js_error = Error string | SyntaxError string | RangeError string | TypeError string

definition round_half_even :: "rat \<Rightarrow> int" where
  "round_half_even x =
     (let f = \<lfloor>x\<rfloor>; r = x - of_int f
      in if r < 1 / 2 then f else if 1 / 2 < r then f + 1 else if even f then f else f + 1)"

definition floor_log2 :: "rat \<Rightarrow> int" where
  "floor_log2 a = (if 1 \<le> a then bitlen \<lfloor>a\<rfloor> - 1 else - bitlen (\<lceil>1 / a\<rceil> - 1))"

definition to_double :: "rat \<Rightarrow> rat" where
  "to_double x =
     (if x = 0 then 0
      else let e = floor_log2 \<bar>x\<bar>;
               m = round_half_even (\<bar>x\<bar> * 2 powi (52 - e))
           in sgn x * of_int m * 2 powi (e - 52))"

definition digit_char :: "int \<Rightarrow> char" where
  "digit_char d = char_of (48 + d)"

function digits10 :: "int \<Rightarrow> string" where
  "digits10 n = (if n < 10 then [digit_char n] else digits10 (n div 10) @ [digit_char (n mod 10)])"
  by pat_completeness auto
termination
  by (relation "measure nat") auto

declare digits10.simps [simp del]

definition digit_value :: "char \<Rightarrow> int option" where
  "digit_value c =
     (let n = (of_char c :: int)
      in if 48 \<le> n \<and> n \<le> 57 then Some (n - 48)
         else if 97 \<le> n \<and> n \<le> 102 then Some (n - 87)
         else if 65 \<le> n \<and> n \<le> 70 then Some (n - 55)
         else None)"

fun parse_digits :: "int \<Rightarrow> int \<Rightarrow> string \<Rightarrow> int option" where
  "parse_digits b acc [] = Some acc"
| "parse_digits b acc (c # cs) =
     (case digit_value c of
        None \<Rightarrow> None
      | Some d \<Rightarrow> if d < b then parse_digits b (acc * b + d) cs else None)"

definition parse_nat :: "int \<Rightarrow> string \<Rightarrow> int option" where
  "parse_nat b s = (if s = [] then None else parse_digits b 0 s)"

definition StringToBigInt :: "string \<Rightarrow> int option" where
  "StringToBigInt s =
     (let t = trim s
      in if t = [] then Some 0
         else if take 2 t \<in> {''0x'', ''0X''} then (parse_nat 16 (drop 2 t))
         else if take 2 t \<in> {''0o'', ''0O''} then (parse_nat 8 (drop 2 t))
         else if take 2 t \<in> {''0b'', ''0B''} then (parse_nat 2 (drop 2 t))
         else if hd t = CHR ''-'' then map_option uminus (parse_nat 10 (tl t))
         else if hd t = CHR ''+'' then (parse_nat 10 (tl t))
         else (parse_nat 10 t))"

definition BigInt_string :: "string \<Rightarrow> js_error + int" where
  "BigInt_string s =
     (case StringToBigInt s of
        None \<Rightarrow> Inl (SyntaxError (''Cannot convert '' @ s @ '' to a BigInt''))
      | Some v \<Rightarrow> Inr v)"

datatype raw_amount = AmountString string | AmountBigInt int

definition raw_value :: "raw_amount \<Rightarrow> js_error + int" where
  "raw_value amount = (case amount of AmountString s \<Rightarrow> BigInt_string s | AmountBigInt v \<Rightarrow> Inr v)"

definition Number_bigint :: "int \<Rightarrow> rat" where
  "Number_bigint v = to_double (of_int v)"

definition js_div :: "rat \<Rightarrow> rat \<Rightarrow> rat" where
  "js_div a b = to_double (a / b)"

definition js_pow10 :: "nat \<Rightarrow> rat" where
  "js_pow10 d = to_double (10 ^ d)"

definition formatTokenAmount :: "raw_amount \<Rightarrow> nat \<Rightarrow> js_error + rat" where
  "formatTokenAmount amount decimals =
     (case raw_value amount of
        Inl e \<Rightarrow> Inl e
      | Inr v \<Rightarrow>
          let divisor = \<lfloor>js_pow10 decimals\<rfloor>
          in Inr (js_div (Number_bigint v) (Number_bigint divisor)))"

definition nearest_fixed :: "rat \<Rightarrow> nat \<Rightarrow> int" where
  \<comment> \<open>the integer \<open>n\<close> of \<open>Number.prototype.toFixed\<close>: \<open>n / 10 ^ f\<close> is as close to
      \<open>\<bar>x\<bar>\<close> as possible, the larger \<open>n\<close> on a tie\<close>
  "nearest_fixed x f = \<lfloor>\<bar>x\<bar> * 10 ^ f + 1 / 2\<rfloor>"

definition toFixed :: "rat \<Rightarrow> nat \<Rightarrow> string" where
  \<comment> \<open>\<open>x.toFixed(f)\<close> for \<open>f\<close> up to 100 and \<open>\<bar>x\<bar>\<close> below \<open>10 ^ 21\<close>\<close>
  "toFixed x f =
     (let s = (if x < 0 then ''-'' else '''');
          n = nearest_fixed x f;
          m = digits10 n;
          m = (if f \<noteq> 0 \<and> length m \<le> f then replicate (f + 1 - length m) (CHR ''0'') @ m else m)
      in if f = 0 then s @ m
         else s @ take (length m - f) m @ ''.'' @ drop (length m - f) m)"

fun split_on :: "char \<Rightarrow> string \<Rightarrow> string list" where
  "split_on c [] = [[]]"
| "split_on c (x # xs) =
     (if x = c then [] # split_on c xs
      else (case split_on c xs of p # ps \<Rightarrow> (x # p) # ps | [] \<Rightarrow> [[x]]))"

definition padEnd :: "string \<Rightarrow> nat \<Rightarrow> char \<Rightarrow> string" where
  "padEnd s n c = s @ replicate (n - length s) c"

definition parseTokenAmount :: "rat \<Rightarrow> nat \<Rightarrow> js_error + int" where
  "parseTokenAmount amount decimals =
     (if 100 < decimals then Inl (RangeError ''toFixed() digits argument must be between 0 and 100'')
      else if 10 ^ 21 \<le> \<bar>amount\<bar> then Inl (SyntaxError ''Cannot convert exponent notation to a BigInt'')
      else let amountStr = toFixed amount decimals;
               parts = split_on (CHR ''.'') amountStr;
               whole = hd parts;
               fraction = (if 2 \<le> length parts then parts ! 1 else '''');
               paddedFraction = padEnd fraction decimals (CHR ''0'')
           in BigInt_string (whole @ paddedFraction))"


definition is_digit :: "char \<Rightarrow> bool" where
  "is_digit c = (48 \<le> (of_char c :: int) \<and> (of_char c :: int) \<le> 57)"

definition fixed_digits :: "int \<Rightarrow> nat \<Rightarrow> string" where
  "fixed_digits n f =
     (let m = digits10 n
      in if f \<noteq> 0 \<and> length m \<le> f then replicate (f + 1 - length m) (CHR ''0'') @ m else m)"

definition roundtrip :: "raw_amount \<Rightarrow> nat \<Rightarrow> js_error + int" where
  \<comment> \<open>\<open>parseTokenAmount(formatTokenAmount(amount, decimals), decimals)\<close>\<close>
  "roundtrip amount decimals =
     (case formatTokenAmount amount decimals of
        Inl e \<Rightarrow> Inl e
      | Inr x \<Rightarrow> parseTokenAmount x decimals)"

section \<open>The transfer source: src/lib/etherscan.ts\<close>

text \<open>
  \<open>EtherscanTokenTransfer\<close>, with the fields the import and its claims read. Every field is
  a string, as the explorer sends it. The record fields carry the prefix \<open>tx_\<close>.
\<close>

record EtherscanTokenTransfer =
  tx_blockNumber :: string
  tx_timeStamp :: string
  tx_hash :: string
  tx_from :: string
  tx_contractAddress :: string
  tx_to :: string
  tx_value :: string
  tx_tokenDecimal :: string
  tx_transactionIndex :: string

text \<open>
  What \<open>fetch\<close> and \<open>response.json()\<close> can hand to \<open>request\<close>: the call fails, or it
  answers with a status line and a body that is no JSON, the JSON \<open>null\<close>, another JSON
  value that is not an object, or an object with the fields \<open>status\<close>, \<open>message\<close> and
  \<open>result\<close>. An absent field, or one of another type than the code compares it with, is
  \<open>None\<close> (for \<open>result\<close>: \<open>RUndefined\<close>).
\<close>

datatype json_result =
  RArray "EtherscanTokenTransfer list" | RString string | RNull | RUndefined

record etherscan_data =
  d_status :: "string option"
  d_message :: "string option"
  d_result :: json_result

datatype json_body = NotJson | JsonNull | JsonPrimitive | JsonObject etherscan_data

record http_response =
  resp_ok :: bool
  resp_statusText :: string
  resp_body :: json_body

datatype fetch_outcome = FetchFailed string | Response http_response

record EtherscanClient =
  apiUrl :: string
  apiKey :: "string option"
  chainId :: int

type_synonym params = "(string \<times> string) list"

type_synonym network = "string \<times> params \<Rightarrow> fetch_outcome"

definition error_message :: "js_error \<Rightarrow> string" where
  "error_message e =
     (case e of Error m \<Rightarrow> m | SyntaxError m \<Rightarrow> m | RangeError m \<Rightarrow> m | TypeError m \<Rightarrow> m)"

definition int_to_string :: "int \<Rightarrow> string" where
  \<comment> \<open>\<open>Number.prototype.toString\<close> of an integer\<close>
  "int_to_string n = (if n < 0 then CHR ''-'' # digits10 (- n) else digits10 n)"

definition set_param :: "string \<Rightarrow> string \<Rightarrow> params \<Rightarrow> params" where
  \<comment> \<open>\<open>params[key] = v\<close>: an existing key keeps its place, a new one goes last\<close>
  "set_param k v ps =
     (if k \<in> set (map fst ps) then map (\<lambda>(k', v'). if k' = k then (k', v) else (k', v')) ps
      else ps @ [(k, v)])"

definition js_string_of_result :: "json_result \<Rightarrow> string" where
  \<comment> \<open>the text a template literal gives a \<open>result\<close>; the array's elements are objects\<close>
  "js_string_of_result r =
     (case r of
        RString s \<Rightarrow> s
      | RArray xs \<Rightarrow> concat (map (\<lambda>i. (if i = 0 then '''' else '','') @ ''[object Object]'') [0..<length xs])
      | RNull \<Rightarrow> ''null''
      | RUndefined \<Rightarrow> ''undefined'')"

definition message_or_result :: "etherscan_data \<Rightarrow> string" where
  \<comment> \<open>\<open>data.message || data.result\<close> inside the template literal\<close>
  "message_or_result d =
     (case d_message d of
        Some m \<Rightarrow> if m \<noteq> '''' then m else js_string_of_result (d_result d)
      | None \<Rightarrow> js_string_of_result (d_result d))"

definition request_query :: "EtherscanClient \<Rightarrow> params \<Rightarrow> string \<times> params" where
  \<comment> \<open>the URL of \<open>request\<close>: the API address and the query parameters\<close>
  "request_query c ps =
     (let ps1 = (case apiKey c of Some k \<Rightarrow> if k \<noteq> '''' then set_param ''apikey'' k ps else ps
                 | None \<Rightarrow> ps);
          ps2 = set_param ''chainid'' (int_to_string (chainId c)) ps1
      in (apiUrl c, ps2))"

definition request :: "EtherscanClient \<Rightarrow> network \<Rightarrow> params \<Rightarrow> js_error + json_result" where
  "request c net ps =
     (case net (request_query c ps) of
        FetchFailed m \<Rightarrow> Inl (TypeError m)
      | Response response \<Rightarrow>
          if \<not> resp_ok response
          then Inl (Error (''Etherscan API request failed: '' @ resp_statusText response))
          else (case resp_body response of
                  NotJson \<Rightarrow> Inl (SyntaxError ''Unexpected token in JSON'')
                | JsonNull \<Rightarrow> Inl (TypeError ''Cannot read properties of null'')
                | JsonPrimitive \<Rightarrow> Inr RUndefined
                | JsonObject data \<Rightarrow>
                    if d_status data = Some ''0'' \<and> d_message data \<noteq> Some ''No transactions found''
                    then Inl (Error (''Etherscan API error: '' @ message_or_result data))
                    else Inr (d_result data)))"

definition tokentx_params ::
  "string \<Rightarrow> string option \<Rightarrow> int option \<Rightarrow> int option \<Rightarrow> int \<Rightarrow> int \<Rightarrow> params" where
  "tokentx_params address contractAddress startBlock endBlock page offset =
     (let ps = [(''module'', ''account''), (''action'', ''tokentx''), (''address'', address),
                (''sort'', ''desc''), (''page'', int_to_string page),
                (''offset'', int_to_string offset)];
          ps = (case contractAddress of
                  Some a \<Rightarrow> if a \<noteq> '''' then set_param ''contractaddress'' a ps else ps
                | None \<Rightarrow> ps);
          ps = (case startBlock of Some b \<Rightarrow> set_param ''startblock'' (int_to_string b) ps
                | None \<Rightarrow> ps);
          ps = (case endBlock of Some b \<Rightarrow> set_param ''endblock'' (int_to_string b) ps
                | None \<Rightarrow> ps)
      in ps)"

definition getTokenTransfers ::
  "EtherscanClient \<Rightarrow> network \<Rightarrow> string \<Rightarrow> string option \<Rightarrow> int option \<Rightarrow> int option
     \<Rightarrow> int \<Rightarrow> int \<Rightarrow> js_error + EtherscanTokenTransfer list" where
  "getTokenTransfers c net address contractAddress startBlock endBlock page offset =
     (case request c net (tokentx_params address contractAddress startBlock endBlock page offset) of
        Inr result \<Rightarrow> Inr (case result of RArray xs \<Rightarrow> xs | _ \<Rightarrow> [])
      | Inl error \<Rightarrow>
          if sublist ''No transactions found'' (error_message error) then Inr [] else Inl error)"

definition responding :: "http_response \<Rightarrow> network" where
  \<comment> \<open>a network that answers every request with the same response\<close>
  "responding r q = Response r"

definition tokentx_query ::
  "EtherscanClient \<Rightarrow> string \<Rightarrow> string option \<Rightarrow> int option \<Rightarrow> int option \<Rightarrow> int \<Rightarrow> int
     \<Rightarrow> string \<times> params" where
  \<comment> \<open>the one request \<open>getTokenTransfers\<close> sends\<close>
  "tokentx_query c address contractAddress startBlock endBlock page offset =
     request_query c (tokentx_params address contractAddress startBlock endBlock page offset)"

section \<open>The ledger behind the gateway\<close>

text \<open>
  The accounting backend is not part of the repository. Its tables and the answers it gives
  to the remote calls the code issues are modelled here: a search returns the matching rows
  in table order, cut at the limit the call names; a read returns the rows with the given
  id; a create appends a row under a fresh id; a write and a post change the row with the
  given id. Integers that JavaScript holds as numbers (identifiers, limits) are
  \<^typ>\<open>int\<close>; amounts and balances are the rationals that the doubles denote.
\<close>

record statement_rec =
  st_id :: int
  st_journal_id :: int
  st_name :: string
  st_date :: string
  st_balance_start :: "rat option"
  st_balance_end_real :: "rat option"
  st_posted :: bool

record line_rec =
  ln_id :: int
  ln_statement_id :: int
  ln_date :: string
  ln_payment_ref :: string
  ln_amount :: rat
  ln_name :: string
  ln_unique_import_id :: "string option"

record partner_rec =
  pt_id :: int
  pt_name :: string
  pt_is_company :: bool
  pt_customer_rank :: int
  pt_supplier_rank :: int
  pt_street :: "string option"
  pt_receivable :: "int option"
  pt_payable :: "int option"

record bank_rec =
  bk_id :: int
  bk_acc_number :: string
  bk_partner_id :: int
  bk_acc_type :: string
  bk_acc_holder_name :: "string option"

record move_line_rec =
  ml_id :: int
  ml_name :: string
  ml_date :: string
  ml_ref :: "string option"
  ml_debit :: rat
  ml_credit :: rat
  ml_account_id :: "int \<times> string"
  ml_journal_id :: "int \<times> string"
  ml_partner_id :: "(int \<times> string) option"

record entry_line =
  el_debit :: rat
  el_credit :: rat
  el_name :: string
  el_partner_id :: "int option"

record JournalEntry =
  je_ref :: string
  je_date :: string
  je_journal_id :: int
  je_line_ids :: "entry_line list"

record move_rec =
  mv_id :: int
  mv_entry :: JournalEntry
  mv_posted :: bool

record PartnerCreateData =
  pc_name :: string
  pc_is_company :: bool
  pc_customer_rank :: int
  pc_supplier_rank :: int
  pc_street :: "string option"
  pc_property_account_receivable_id :: "int option"
  pc_property_account_payable_id :: "int option"

record BankAccountCreateData =
  bc_acc_number :: string
  bc_partner_id :: int
  bc_acc_type :: string
  bc_acc_holder_name :: "string option"

record line_payload =
  pl_statement_id :: int
  pl_date :: string
  pl_payment_ref :: string
  pl_amount :: rat
  pl_name :: string
  pl_unique_import_id :: "string option"

text \<open>
  The tables that only the reading operations of the client use: journals, accounts,
  invoices with their lines, attachments, activities and messages. An invoice line, an
  activity and a message are held as the code reads them, field by field. Fields that the
  ledger leaves unset (it answers \<open>false\<close>) are \<open>None\<close>.
\<close>

record journal_rec =
  jr_id :: int
  jr_name :: string
  jr_type :: string
  jr_code :: string

record account_rec =
  ac_id :: int
  ac_name :: string
  ac_code :: string
  ac_account_type :: string

record invoice_rec =
  iv_id :: int
  iv_name :: string
  iv_ref :: "string option"
  iv_date :: string
  iv_invoice_date :: "string option"
  iv_invoice_date_due :: "string option"
  iv_state :: string
  iv_payment_state :: "string option"
  iv_move_type :: string
  iv_partner_id :: "(int \<times> string) option"
  iv_amount_total :: rat
  iv_amount_residual :: rat
  iv_amount_untaxed :: rat
  iv_amount_tax :: rat
  iv_currency_id :: "(int \<times> string) option"
  iv_partner_bank_id :: "(int \<times> string) option"
  iv_invoice_line_ids :: "int list"
  iv_invoice_origin :: "string option"
  iv_invoice_payment_term_id :: "(int \<times> string) option"
  iv_fiscal_position_id :: "(int \<times> string) option"
  iv_invoice_user_id :: "(int \<times> string) option"
  iv_invoice_source_email :: "string option"
  iv_narration :: "string option"
  iv_journal_id :: "(int \<times> string) option"

record InvoiceLine =
  il_id :: int
  il_name :: string
  il_quantity :: rat
  il_price_unit :: rat
  il_price_subtotal :: rat
  il_price_total :: rat
  il_product_id :: "(int \<times> string) option"
  il_account_id :: "(int \<times> string) option"
  il_tax_ids :: "int list option"
  il_discount :: "rat option"

record attachment_rec =
  at_id :: int
  at_res_model :: string
  at_res_id :: int
  at_name :: string
  at_mimetype :: string
  at_file_size :: "int option"
  at_create_date :: "string option"

record Activity =
  act_id :: int
  act_activity_type_id :: "(int \<times> string) option"
  act_date_deadline :: string
  act_summary :: "string option"
  act_note :: "string option"
  act_user_id :: "(int \<times> string) option"
  act_state :: string
  act_create_date :: "string option"

record activity_rec =
  ay_res_model :: string
  ay_res_id :: int
  ay_fields :: Activity

record Message =
  msg_id :: int
  msg_body :: string
  msg_author_id :: "(int \<times> string) option"
  msg_date :: string
  msg_message_type :: string
  msg_subtype_id :: "(int \<times> string) option"

record message_rec =
  mg_model :: string
  mg_res_id :: int
  mg_fields :: Message

text \<open>
  A remote call: the model, the method and the arguments of one \<open>execute_kw\<close> request (or
  the login), one constructor for each shape the code sends.
\<close>

datatype rpc_call =
    CommonLogin
  | MoveLineSearchRead int int
      \<comment> \<open>account.move.line search_read, journal_id =, limit\<close>
  | MoveSearchReadRef string
      \<comment> \<open>account.move search_read, ref =\<close>
  | MoveCreate JournalEntry
  | MoveActionPost int
  | PartnerSearchReadName string
      \<comment> \<open>res.partner search_read, name ilike, limit 1\<close>
  | PartnerCreate PartnerCreateData
  | PartnerRead int
  | PartnerWrite int "int option" "int option"
      \<comment> \<open>res.partner write: the receivable and the payable account, each if set\<close>
  | PartnerBankSearchReadAcc string
      \<comment> \<open>res.partner.bank search_read, acc_number =\<close>
  | PartnerBankSearchReadAccIlike string
      \<comment> \<open>res.partner.bank search_read, acc_number ilike, limit 1\<close>
  | PartnerBankCreate BankAccountCreateData
  | PartnerBankRead int
  | StatementSearchReadName int string
      \<comment> \<open>account.bank.statement search_read, journal_id = and name =, limit 1\<close>
  | StatementSearchReadJournal int
      \<comment> \<open>account.bank.statement search_read, journal_id =, limit 10000\<close>
  | StatementCreate string int string
  | StatementRead int
  | StatementWrite int rat
      \<comment> \<open>account.bank.statement write balance_end_real\<close>
  | StatementButtonPost int
  | LineSearchReadStatement int
      \<comment> \<open>account.bank.statement.line search_read, statement_id =, limit 100000\<close>
  | LineSearchImportId string
      \<comment> \<open>account.bank.statement.line search, unique_import_id =, limit 1\<close>
  | LineCreate line_payload
  | JournalSearchRead
      \<comment> \<open>account.journal search_read, every row\<close>
  | InvoiceSearchRead "string list" "string option" "string option" int
      \<comment> \<open>account.move search_read, move_type in, date from and date to if given, limit\<close>
  | InvoiceSearchReadId int
      \<comment> \<open>account.move search_read, id =\<close>
  | InvoiceLineSearchRead "int list"
      \<comment> \<open>account.move.line search_read, id in\<close>
  | PartnerBankSearchReadIds "int list"
      \<comment> \<open>res.partner.bank search_read, id in\<close>
  | PartnerBankSearchReadId int
      \<comment> \<open>res.partner.bank search_read, id =\<close>
  | AttachmentSearchReadIds "int list"
      \<comment> \<open>ir.attachment search_read, res_model = account.move and res_id in\<close>
  | AttachmentSearchReadId int
      \<comment> \<open>ir.attachment search_read, res_model = account.move and res_id =\<close>
  | ActivitySearchRead int
      \<comment> \<open>mail.activity search_read, res_model = account.move and res_id =\<close>
  | MessageSearchRead int
      \<comment> \<open>mail.message search_read, model = account.move and res_id =, limit 50\<close>
  | AccountSearchReadName string
      \<comment> \<open>account.account search_read, name ilike, limit 1\<close>
  | AccountSearchRead
      \<comment> \<open>account.account search_read, every row\<close>

fun is_write_call :: "rpc_call \<Rightarrow> bool" where
  "is_write_call (MoveCreate _) = True"
| "is_write_call (MoveActionPost _) = True"
| "is_write_call (PartnerCreate _) = True"
| "is_write_call (PartnerWrite _ _ _) = True"
| "is_write_call (PartnerBankCreate _) = True"
| "is_write_call (StatementCreate _ _ _) = True"
| "is_write_call (StatementWrite _ _) = True"
| "is_write_call (StatementButtonPost _) = True"
| "is_write_call (LineCreate _) = True"
| "is_write_call _ = False"

text \<open>The lines the program prints that tell an outcome; debugging output is left out.\<close>

datatype log_entry =
    DryRunWouldCreatePartner string
  | DryRunWouldCreateBankAccount string int
  | DryRunWouldCreateStatement string int
  | DryRunWouldUpdateBalance int rat
  | DryRunWouldClose int rat
  | DryRunWouldCreateJournalEntry string
  | DryRunWouldPostJournalEntry int
  | ClosedStatement int rat
  | PostingNotAvailable int
  | SkipDuplicate string
  | DryRunWouldCreateLine string
  | LineCreated string string
  | KeepingOpen string
  | ImportDone

text \<open>
  The state a run threads through: the ledger's tables, the next fresh identifier, the uid
  a login answers with, the remote calls issued so far, the positions in that sequence at
  which the remote call raises (a transport or a server error), and the console.
\<close>

record world =
  statements :: "statement_rec list"
  lines :: "line_rec list"
  partners :: "partner_rec list"
  banks :: "bank_rec list"
  move_lines :: "move_line_rec list"
  moves :: "move_rec list"
  journals :: "journal_rec list"
  accounts :: "account_rec list"
  invoices :: "invoice_rec list"
  invoice_lines :: "InvoiceLine list"
  attachments :: "attachment_rec list"
  activities :: "activity_rec list"
  messages :: "message_rec list"
  next_id :: int
  login_uid :: "int option"
  calls :: "rpc_call list"
  faults :: "nat list"
  console :: "log_entry list"

type_synonym 'a action = "world \<Rightarrow> (js_error + 'a) \<times> world"

definition returnE :: "'a \<Rightarrow> 'a action" where
  "returnE x w = (Inr x, w)"

definition throwE :: "js_error \<Rightarrow> 'a action" where
  "throwE e w = (Inl e, w)"

definition thenE :: "'a action \<Rightarrow> ('a \<Rightarrow> 'b action) \<Rightarrow> 'b action" where
  \<comment> \<open>\<open>await f; g\<close>: an error of \<open>f\<close> skips \<open>g\<close>\<close>
  "thenE f g w = (case f w of (Inl e, w1) \<Rightarrow> (Inl e, w1) | (Inr x, w1) \<Rightarrow> g x w1)"

definition catchE :: "'a action \<Rightarrow> (js_error \<Rightarrow> 'a action) \<Rightarrow> 'a action" where
  \<comment> \<open>\<open>try { f } catch (e) { h }\<close>\<close>
  "catchE f h w = (case f w of (Inl e, w1) \<Rightarrow> h e w1 | (Inr x, w1) \<Rightarrow> (Inr x, w1))"

definition logE :: "log_entry \<Rightarrow> unit action" where
  "logE entry w = (Inr (), w\<lparr>console := console w @ [entry]\<rparr>)"

definition callRPC :: "rpc_call \<Rightarrow> (world \<Rightarrow> 'a \<times> world) \<Rightarrow> 'a action" where
  \<comment> \<open>\<open>OdooClient.callRPC\<close>: the request is sent; a failed transport or an error answer
      raises, otherwise the ledger answers\<close>
  "callRPC req answer w =
     (let w1 = w\<lparr>calls := calls w @ [req]\<rparr>
      in if length (calls w) \<in> set (faults w) then (Inl (Error ''Odoo error''), w1)
         else (case answer w1 of (r, w2) \<Rightarrow> (Inr r, w2)))"

fun limit_rows :: "int \<Rightarrow> 'a list \<Rightarrow> 'a list" where
  "limit_rows n [] = []"
| "limit_rows n (x # xs) = (if n \<le> 0 then [] else x # limit_rows (n - 1) xs)"

definition ilike :: "string \<Rightarrow> string \<Rightarrow> bool" where
  \<comment> \<open>the ledger's \<open>ilike\<close>: the pattern occurs in the text, letter case ignored\<close>
  "ilike pat s = sublist (toLowerCase pat) (toLowerCase s)"

definition srv_login :: "world \<Rightarrow> int option \<times> world" where
  "srv_login w = (login_uid w, w)"

definition srv_move_line_search_read :: "int \<Rightarrow> int \<Rightarrow> world \<Rightarrow> move_line_rec list \<times> world" where
  "srv_move_line_search_read journalId limit w =
     (limit_rows limit (filter (\<lambda>l. fst (ml_journal_id l) = journalId) (move_lines w)), w)"

definition srv_move_search_read_ref :: "string \<Rightarrow> world \<Rightarrow> int list \<times> world" where
  "srv_move_search_read_ref r w = (map mv_id (filter (\<lambda>m. je_ref (mv_entry m) = r) (moves w)), w)"

definition srv_move_create :: "JournalEntry \<Rightarrow> world \<Rightarrow> int \<times> world" where
  "srv_move_create entry w =
     (next_id w,
      w\<lparr>moves := moves w @ [\<lparr>mv_id = next_id w, mv_entry = entry, mv_posted = False\<rparr>],
        next_id := next_id w + 1\<rparr>)"

definition srv_move_action_post :: "int \<Rightarrow> world \<Rightarrow> bool \<times> world" where
  "srv_move_action_post moveId w =
     (True, w\<lparr>moves := map (\<lambda>m. if mv_id m = moveId then m\<lparr>mv_posted := True\<rparr> else m) (moves w)\<rparr>)"

definition srv_partner_search_read_name :: "string \<Rightarrow> world \<Rightarrow> int list \<times> world" where
  "srv_partner_search_read_name name w =
     (limit_rows 1 (map pt_id (filter (\<lambda>p. ilike name (pt_name p)) (partners w))), w)"

definition srv_partner_create :: "PartnerCreateData \<Rightarrow> world \<Rightarrow> int \<times> world" where
  "srv_partner_create d w =
     (next_id w,
      w\<lparr>partners := partners w @
          [\<lparr>pt_id = next_id w, pt_name = pc_name d, pt_is_company = pc_is_company d,
            pt_customer_rank = pc_customer_rank d, pt_supplier_rank = pc_supplier_rank d,
            pt_street = pc_street d, pt_receivable = pc_property_account_receivable_id d,
            pt_payable = pc_property_account_payable_id d\<rparr>],
        next_id := next_id w + 1\<rparr>)"

definition srv_partner_read :: "int \<Rightarrow> world \<Rightarrow> partner_rec list \<times> world" where
  "srv_partner_read partnerId w = (filter (\<lambda>p. pt_id p = partnerId) (partners w), w)"

definition srv_partner_write :: "int \<Rightarrow> int option \<Rightarrow> int option \<Rightarrow> world \<Rightarrow> bool \<times> world" where
  "srv_partner_write partnerId receivable payable w =
     (True,
      w\<lparr>partners := map (\<lambda>p. if pt_id p = partnerId
            then p\<lparr>pt_receivable := (case receivable of Some a \<Rightarrow> Some a | None \<Rightarrow> pt_receivable p),
                   pt_payable := (case payable of Some a \<Rightarrow> Some a | None \<Rightarrow> pt_payable p)\<rparr>
            else p) (partners w)\<rparr>)"

definition srv_bank_search_read_acc :: "string \<Rightarrow> world \<Rightarrow> int list \<times> world" where
  "srv_bank_search_read_acc acc w =
     (map bk_id (filter (\<lambda>b. bk_acc_number b = acc) (banks w)), w)"

definition srv_bank_search_read_acc_ilike :: "string \<Rightarrow> world \<Rightarrow> int list \<times> world" where
  \<comment> \<open>the field \<open>partner_id\<close> of the first match\<close>
  "srv_bank_search_read_acc_ilike acc w =
     (limit_rows 1 (map bk_partner_id (filter (\<lambda>b. ilike acc (bk_acc_number b)) (banks w))), w)"

definition srv_bank_create :: "BankAccountCreateData \<Rightarrow> world \<Rightarrow> int \<times> world" where
  "srv_bank_create d w =
     (next_id w,
      w\<lparr>banks := banks w @
          [\<lparr>bk_id = next_id w, bk_acc_number = bc_acc_number d, bk_partner_id = bc_partner_id d,
            bk_acc_type = bc_acc_type d, bk_acc_holder_name = bc_acc_holder_name d\<rparr>],
        next_id := next_id w + 1\<rparr>)"

definition srv_bank_read :: "int \<Rightarrow> world \<Rightarrow> int list \<times> world" where
  \<comment> \<open>the field \<open>partner_id\<close> of the rows read\<close>
  "srv_bank_read bankId w = (map bk_partner_id (filter (\<lambda>b. bk_id b = bankId) (banks w)), w)"

definition srv_statement_search_read_name :: "int \<Rightarrow> string \<Rightarrow> world \<Rightarrow> int list \<times> world" where
  "srv_statement_search_read_name journalId name w =
     (limit_rows 1 (map st_id
        (filter (\<lambda>s. st_journal_id s = journalId \<and> st_name s = name) (statements w))), w)"

definition srv_statement_search_read_journal ::
  "int \<Rightarrow> world \<Rightarrow> (int \<times> string) list \<times> world" where
  "srv_statement_search_read_journal journalId w =
     (limit_rows 10000 (map (\<lambda>s. (st_id s, st_name s))
        (filter (\<lambda>s. st_journal_id s = journalId) (statements w))), w)"

definition srv_statement_create :: "string \<Rightarrow> int \<Rightarrow> string \<Rightarrow> world \<Rightarrow> int \<times> world" where
  "srv_statement_create name journalId date w =
     (next_id w,
      w\<lparr>statements := statements w @
          [\<lparr>st_id = next_id w, st_journal_id = journalId, st_name = name, st_date = date,
            st_balance_start = None, st_balance_end_real = None, st_posted = False\<rparr>],
        next_id := next_id w + 1\<rparr>)"

definition srv_statement_read :: "int \<Rightarrow> world \<Rightarrow> statement_rec list \<times> world" where
  "srv_statement_read statementId w = (filter (\<lambda>s. st_id s = statementId) (statements w), w)"

definition srv_statement_write :: "int \<Rightarrow> rat \<Rightarrow> world \<Rightarrow> bool \<times> world" where
  "srv_statement_write statementId endReal w =
     (True,
      w\<lparr>statements := map (\<lambda>s. if st_id s = statementId
            then s\<lparr>st_balance_end_real := Some endReal\<rparr> else s) (statements w)\<rparr>)"

definition srv_statement_button_post :: "int \<Rightarrow> world \<Rightarrow> bool \<times> world" where
  "srv_statement_button_post statementId w =
     (True,
      w\<lparr>statements := map (\<lambda>s. if st_id s = statementId then s\<lparr>st_posted := True\<rparr> else s)
          (statements w)\<rparr>)"

definition srv_line_search_read_statement :: "int \<Rightarrow> world \<Rightarrow> rat list \<times> world" where
  \<comment> \<open>the field \<open>amount\<close> of the lines of the statement\<close>
  "srv_line_search_read_statement statementId w =
     (limit_rows 100000 (map ln_amount
        (filter (\<lambda>l. ln_statement_id l = statementId) (lines w))), w)"

definition srv_line_search_import_id :: "string \<Rightarrow> world \<Rightarrow> int list \<times> world" where
  "srv_line_search_import_id u w =
     (limit_rows 1 (map ln_id (filter (\<lambda>l. ln_unique_import_id l = Some u) (lines w))), w)"

definition srv_line_create :: "line_payload \<Rightarrow> world \<Rightarrow> int \<times> world" where
  "srv_line_create p w =
     (next_id w,
      w\<lparr>lines := lines w @
          [\<lparr>ln_id = next_id w, ln_statement_id = pl_statement_id p, ln_date = pl_date p,
            ln_payment_ref = pl_payment_ref p, ln_amount = pl_amount p, ln_name = pl_name p,
            ln_unique_import_id = pl_unique_import_id p\<rparr>],
        next_id := next_id w + 1\<rparr>)"

fun date_le :: "string \<Rightarrow> string \<Rightarrow> bool" where
  \<comment> \<open>the ledger's order of dates, which on the form \<open>YYYY-MM-DD\<close> is that of the strings\<close>
  "date_le [] ys = True"
| "date_le (x # xs) [] = False"
| "date_le (x # xs) (y # ys) = ((of_char x :: int) < of_char y \<or> (x = y \<and> date_le xs ys))"

definition srv_journal_search_read :: "world \<Rightarrow> journal_rec list \<times> world" where
  "srv_journal_search_read w = (journals w, w)"

definition srv_invoice_search_read ::
  "string list \<Rightarrow> string option \<Rightarrow> string option \<Rightarrow> int \<Rightarrow> world \<Rightarrow> invoice_rec list \<times> world" where
  "srv_invoice_search_read moveTypes since until limit w =
     (limit_rows limit
        (filter (\<lambda>r. iv_move_type r \<in> set moveTypes
                   \<and> (case since of None \<Rightarrow> True | Some d \<Rightarrow> date_le d (iv_date r))
                   \<and> (case until of None \<Rightarrow> True | Some d \<Rightarrow> date_le (iv_date r) d))
           (invoices w)), w)"

definition srv_invoice_search_read_id :: "int \<Rightarrow> world \<Rightarrow> invoice_rec list \<times> world" where
  "srv_invoice_search_read_id invoiceId w = (filter (\<lambda>r. iv_id r = invoiceId) (invoices w), w)"

definition srv_invoice_line_search_read :: "int list \<Rightarrow> world \<Rightarrow> InvoiceLine list \<times> world" where
  "srv_invoice_line_search_read ids w = (filter (\<lambda>l. il_id l \<in> set ids) (invoice_lines w), w)"

definition srv_bank_search_read_ids :: "int list \<Rightarrow> world \<Rightarrow> (int \<times> string) list \<times> world" where
  \<comment> \<open>the fields \<open>id\<close> and \<open>acc_number\<close>\<close>
  "srv_bank_search_read_ids ids w =
     (map (\<lambda>b. (bk_id b, bk_acc_number b)) (filter (\<lambda>b. bk_id b \<in> set ids) (banks w)), w)"

definition srv_bank_search_read_id :: "int \<Rightarrow> world \<Rightarrow> string list \<times> world" where
  \<comment> \<open>the field \<open>acc_number\<close>\<close>
  "srv_bank_search_read_id bankId w =
     (map bk_acc_number (filter (\<lambda>b. bk_id b = bankId) (banks w)), w)"

definition srv_attachment_search_read_ids :: "int list \<Rightarrow> world \<Rightarrow> attachment_rec list \<times> world" where
  "srv_attachment_search_read_ids ids w =
     (filter (\<lambda>a. at_res_model a = ''account.move'' \<and> at_res_id a \<in> set ids) (attachments w), w)"

definition srv_attachment_search_read_id :: "int \<Rightarrow> world \<Rightarrow> attachment_rec list \<times> world" where
  "srv_attachment_search_read_id invoiceId w =
     (filter (\<lambda>a. at_res_model a = ''account.move'' \<and> at_res_id a = invoiceId) (attachments w), w)"

definition srv_activity_search_read :: "int \<Rightarrow> world \<Rightarrow> Activity list \<times> world" where
  "srv_activity_search_read invoiceId w =
     (map ay_fields
        (filter (\<lambda>a. ay_res_model a = ''account.move'' \<and> ay_res_id a = invoiceId) (activities w)), w)"

definition srv_message_search_read :: "int \<Rightarrow> world \<Rightarrow> Message list \<times> world" where
  "srv_message_search_read invoiceId w =
     (limit_rows 50 (map mg_fields
        (filter (\<lambda>m. mg_model m = ''account.move'' \<and> mg_res_id m = invoiceId) (messages w))), w)"

definition srv_account_search_read_name :: "string \<Rightarrow> world \<Rightarrow> account_rec list \<times> world" where
  "srv_account_search_read_name name w =
     (limit_rows 1 (filter (\<lambda>a. ilike name (ac_name a)) (accounts w)), w)"

definition srv_account_search_read :: "world \<Rightarrow> account_rec list \<times> world" where
  "srv_account_search_read w = (accounts w, w)"

section \<open>The ledger gateway: class OdooClient of src/lib/odoo.ts\<close>

record OdooConfig =
  cfg_url :: string
  cfg_database :: string
  cfg_username :: string
  cfg_password :: string

record OdooClient =
  config :: OdooConfig
  uid :: "int option"
  dryRun :: bool

record BankAccountIdentifier =
  bi_standard :: string
  bi_iban :: "string option"
  bi_bic :: "string option"
  bi_accountNumber :: "string option"

record JournalTransaction =
  jt_id :: int
  jt_name :: string
  jt_date :: string
  jt_ref :: string
  jt_amount :: rat
  jt_debit :: rat
  jt_credit :: rat
  jt_account_id :: "int \<times> string"
  jt_journal_id :: "int \<times> string"
  jt_partner_id :: "(int \<times> string) option"
  jt_description :: string

definition truthy_id :: "int option \<Rightarrow> bool" where
  \<comment> \<open>a number or \<open>null\<close> in a condition: \<open>null\<close> and 0 are false\<close>
  "truthy_id x = (case x of None \<Rightarrow> False | Some n \<Rightarrow> n \<noteq> 0)"

definition truthy_string :: "string option \<Rightarrow> bool" where
  \<comment> \<open>a string or \<open>undefined\<close> in a condition: \<open>undefined\<close> and the empty string are false\<close>
  "truthy_string x = (case x of None \<Rightarrow> False | Some s \<Rightarrow> s \<noteq> '''')"

definition not_authenticated :: js_error where
  "not_authenticated = Error ''Not authenticated. Call authenticate() first.''"

definition js_add :: "rat \<Rightarrow> rat \<Rightarrow> rat" where
  "js_add a b = to_double (a + b)"

definition js_sub :: "rat \<Rightarrow> rat \<Rightarrow> rat" where
  "js_sub a b = to_double (a - b)"

definition authenticate :: "OdooClient \<Rightarrow> world \<Rightarrow> (OdooClient \<times> bool) \<times> world" where
  "authenticate c w =
     (case callRPC CommonLogin srv_login w of
        (Inr result, w1) \<Rightarrow> ((c\<lparr>uid := result\<rparr>, truthy_id result), w1)
      | (Inl error, w1) \<Rightarrow> ((c, False), w1))"

definition to_transaction :: "move_line_rec \<Rightarrow> JournalTransaction" where
  "to_transaction item =
     \<lparr>jt_id = ml_id item, jt_name = ml_name item, jt_date = ml_date item,
      jt_ref = (case ml_ref item of Some r \<Rightarrow> r | None \<Rightarrow> ''''),
      jt_amount = js_sub (ml_debit item) (ml_credit item),
      jt_debit = ml_debit item, jt_credit = ml_credit item,
      jt_account_id = ml_account_id item, jt_journal_id = ml_journal_id item,
      jt_partner_id = ml_partner_id item, jt_description = ml_name item\<rparr>"

definition getLatestTransactions :: "OdooClient \<Rightarrow> int \<Rightarrow> int \<Rightarrow> JournalTransaction list action" where
  "getLatestTransactions c journalId limit =
     (if \<not> truthy_id (uid c) then throwE not_authenticated
      else catchE
        (thenE (callRPC (MoveLineSearchRead journalId limit)
                  (srv_move_line_search_read journalId limit))
           (\<lambda>result. returnE (map to_transaction result)))
        (\<lambda>error. throwE error))"

record JournalBasic =
  jb_id :: int
  jb_name :: string
  jb_type :: string
  jb_code :: string

record Account =
  acct_id :: int
  acct_name :: string
  acct_code :: string
  acct_type :: string

record Attachment =
  att_id :: int
  att_name :: string
  att_mimetype :: string
  att_file_size :: "int option"
  att_url :: string
  att_create_date :: "string option"

record Invoice =
  inv_id :: int
  inv_name :: string
  inv_ref :: string
  inv_date :: string
  inv_invoice_date :: "string option"
  inv_invoice_date_due :: "string option"
  inv_state :: string
  inv_payment_state :: "string option"
  inv_move_type :: string
  inv_partner_id :: "(int \<times> string) option"
  inv_partner_name :: "string option"
  inv_amount_total :: rat
  inv_amount_residual :: rat
  inv_currency_id :: "(int \<times> string) option"
  inv_partner_bank_id :: "(int \<times> string) option"
  inv_bank_account_number :: "string option"
  inv_pdf_url :: string
  inv_invoice_line_ids :: "InvoiceLine list"
  inv_attachment_ids :: "Attachment list option"

record InvoiceDetails = Invoice +
  ind_invoice_origin :: "string option"
  ind_invoice_payment_term_id :: "(int \<times> string) option"
  ind_fiscal_position_id :: "(int \<times> string) option"
  ind_invoice_user_id :: "(int \<times> string) option"
  ind_invoice_source_email :: "string option"
  ind_narration :: "string option"
  ind_amount_untaxed :: rat
  ind_amount_tax :: rat
  ind_attachments :: "Attachment list"
  ind_activities :: "Activity list"
  ind_messages :: "Message list"
  ind_journal_id :: "(int \<times> string) option"

definition getJournals :: "OdooClient \<Rightarrow> JournalBasic list action" where
  "getJournals c =
     (if \<not> truthy_id (uid c) then throwE not_authenticated
      else catchE
        (thenE (callRPC JournalSearchRead srv_journal_search_read)
           (\<lambda>result. returnE (map (\<lambda>item.
              \<lparr>jb_id = jr_id item, jb_name = jr_name item, jb_type = jr_type item,
                jb_code = jr_code item\<rparr>) result)))
        (\<lambda>error. throwE error))"

definition parseDate :: "string \<Rightarrow> string" where
  \<comment> \<open>the helper of \<open>getLatestInvoices\<close>: \<open>YYYYMMDD\<close> becomes \<open>YYYY-MM-DD\<close>\<close>
  "parseDate dateStr =
     (if length dateStr = 8 \<and> list_all is_digit dateStr
      then take 4 dateStr @ ''-'' @ take 2 (drop 4 dateStr) @ ''-'' @ take 2 (drop 6 dateStr)
      else dateStr)"

definition moveTypes_of :: "string \<Rightarrow> string list" where
  \<comment> \<open>the \<open>switch\<close> on the direction\<close>
  "moveTypes_of direction =
     (if direction = ''incoming'' then [''in_invoice'', ''in_refund'']
      else if direction = ''outgoing'' then [''out_invoice'', ''out_refund'']
      else [''out_invoice'', ''in_invoice'', ''out_refund'', ''in_refund''])"

definition date_filter :: "string option \<Rightarrow> string option" where
  \<comment> \<open>\<open>if (since) domain.push(["date", ">=", parseDate(since)])\<close>, and the same for \<open>until\<close>\<close>
  "date_filter d = (if truthy_string d then map_option parseDate d else None)"

definition unique_in_order :: "'a list \<Rightarrow> 'a list" where
  \<comment> \<open>\<open>[...new Set(xs)]\<close>: the first occurrence of each element, in order\<close>
  "unique_in_order xs = rev (remdups (rev xs))"

definition to_attachment :: "OdooConfig \<Rightarrow> attachment_rec \<Rightarrow> Attachment" where
  "to_attachment cfg attachment =
     \<lparr>att_id = at_id attachment, att_name = at_name attachment,
      att_mimetype = at_mimetype attachment, att_file_size = at_file_size attachment,
      att_url = cfg_url cfg @ ''/web/content/'' @ int_to_string (at_id attachment),
      att_create_date = at_create_date attachment\<rparr>"

definition report_url :: "OdooConfig \<Rightarrow> int \<Rightarrow> string" where
  "report_url cfg invoiceId =
     cfg_url cfg @ ''/report/pdf/account.report_invoice/'' @ int_to_string invoiceId"

definition is_supplier_invoice :: "string \<Rightarrow> bool" where
  "is_supplier_invoice moveType = (moveType = ''in_invoice'' \<or> moveType = ''in_refund'')"

definition collect_attachment ::
  "OdooConfig \<Rightarrow> (int \<rightharpoonup> string) \<times> (int \<rightharpoonup> Attachment list) \<Rightarrow> attachment_rec
     \<Rightarrow> (int \<rightharpoonup> string) \<times> (int \<rightharpoonup> Attachment list)" where
  \<comment> \<open>one turn of \<open>attachmentsList.forEach\<close>: the attachment joins those of its invoice, and
      the first PDF of an invoice is remembered\<close>
  "collect_attachment cfg dicts attachment =
     (case dicts of (pdfAttachments, allAttachments) \<Rightarrow>
        let resId = at_res_id attachment;
            attachmentObj = to_attachment cfg attachment;
            allAttachments' = allAttachments(resId \<mapsto>
               (case allAttachments resId of None \<Rightarrow> [] | Some xs \<Rightarrow> xs) @ [attachmentObj])
        in (if at_mimetype attachment = ''application/pdf''
               \<and> \<not> truthy_string (pdfAttachments resId)
            then pdfAttachments(resId \<mapsto> att_url attachmentObj)
            else pdfAttachments,
            allAttachments'))"

definition to_invoice ::
  "OdooConfig \<Rightarrow> (int \<rightharpoonup> InvoiceLine) \<Rightarrow> (int \<rightharpoonup> string) \<Rightarrow> (int \<rightharpoonup> string)
     \<Rightarrow> (int \<rightharpoonup> Attachment list) \<Rightarrow> invoice_rec \<Rightarrow> Invoice" where
  \<comment> \<open>the last \<open>map\<close> of \<open>getLatestInvoices\<close>\<close>
  "to_invoice cfg invoiceLines bankAccounts pdfAttachments allAttachments item =
     (let partnerBankId = iv_partner_bank_id item;
          invoiceId = iv_id item;
          isSupplierInvoice = is_supplier_invoice (iv_move_type item);
          bankAccountNumber =
            (if isSupplierInvoice
             then (case partnerBankId of Some (bankId, _) \<Rightarrow> bankAccounts bankId | None \<Rightarrow> None)
             else None);
          pdfUrl =
            (if isSupplierInvoice
             then (case pdfAttachments invoiceId of
                     Some u \<Rightarrow> if u \<noteq> '''' then u else report_url cfg invoiceId
                   | None \<Rightarrow> report_url cfg invoiceId)
             else report_url cfg invoiceId);
          lines = List.map_filter invoiceLines (iv_invoice_line_ids item);
          invoiceAttachments = (case allAttachments invoiceId of Some xs \<Rightarrow> xs | None \<Rightarrow> [])
      in \<lparr>inv_id = invoiceId, inv_name = iv_name item,
          inv_ref = (case iv_ref item of Some r \<Rightarrow> r | None \<Rightarrow> ''''),
          inv_date = iv_date item, inv_invoice_date = iv_invoice_date item,
          inv_invoice_date_due = iv_invoice_date_due item, inv_state = iv_state item,
          inv_payment_state = iv_payment_state item, inv_move_type = iv_move_type item,
          inv_partner_id = iv_partner_id item,
          inv_partner_name = map_option snd (iv_partner_id item),
          inv_amount_total = iv_amount_total item,
          inv_amount_residual = iv_amount_residual item,
          inv_currency_id = iv_currency_id item, inv_partner_bank_id = partnerBankId,
          inv_bank_account_number = bankAccountNumber, inv_pdf_url = pdfUrl,
          inv_invoice_line_ids = lines,
          inv_attachment_ids =
            (if invoiceAttachments \<noteq> [] then Some invoiceAttachments else None)\<rparr>)"

definition getLatestInvoices ::
  "OdooClient \<Rightarrow> int \<Rightarrow> string \<Rightarrow> string option \<Rightarrow> string option \<Rightarrow> Invoice list action" where
  "getLatestInvoices c limit direction since until =
     (if \<not> truthy_id (uid c) then throwE not_authenticated
      else
        let moveTypes = moveTypes_of direction
        in catchE
          (thenE (callRPC (InvoiceSearchRead moveTypes (date_filter since) (date_filter until) limit)
                    (srv_invoice_search_read moveTypes (date_filter since) (date_filter until) limit))
             (\<lambda>invoiceList.
                let allLineIds = concat (map iv_invoice_line_ids invoiceList)
                in thenE
                  (if allLineIds \<noteq> []
                   then thenE (callRPC (InvoiceLineSearchRead allLineIds)
                                 (srv_invoice_line_search_read allLineIds))
                          (\<lambda>linesResult. returnE
                             (foldl (\<lambda>acc line. acc(il_id line \<mapsto> line)) Map.empty linesResult))
                   else returnE Map.empty)
                  (\<lambda>invoiceLines.
                     let bankIds = map fst (List.map_filter iv_partner_bank_id invoiceList);
                         uniqueBankIds = unique_in_order bankIds
                     in thenE
                       (if uniqueBankIds \<noteq> []
                        then thenE (callRPC (PartnerBankSearchReadIds uniqueBankIds)
                                      (srv_bank_search_read_ids uniqueBankIds))
                               (\<lambda>bankAccountsResult. returnE
                                  (foldl (\<lambda>acc bank. acc(fst bank \<mapsto> snd bank)) Map.empty
                                     bankAccountsResult))
                        else returnE Map.empty)
                       (\<lambda>bankAccounts.
                          let allInvoiceIds = map iv_id invoiceList
                          in thenE
                            (if allInvoiceIds \<noteq> []
                             then thenE (callRPC (AttachmentSearchReadIds allInvoiceIds)
                                           (srv_attachment_search_read_ids allInvoiceIds))
                                    (\<lambda>attachmentsList. returnE
                                       (foldl (collect_attachment (config c))
                                          (Map.empty, Map.empty) attachmentsList))
                             else returnE (Map.empty, Map.empty))
                            (\<lambda>dicts. returnE
                               (map (to_invoice (config c) invoiceLines bankAccounts
                                       (fst dicts) (snd dicts)) invoiceList))))))
          (\<lambda>error. throwE error))"

definition to_details ::
  "OdooConfig \<Rightarrow> int \<Rightarrow> invoice_rec \<Rightarrow> InvoiceLine list \<Rightarrow> string option \<Rightarrow> Attachment list
     \<Rightarrow> Activity list \<Rightarrow> Message list \<Rightarrow> InvoiceDetails" where
  \<comment> \<open>the object \<open>getInvoiceDetails\<close> returns\<close>
  "to_details cfg invoiceId invoice invoiceLines bankAccountNumber attachments_of
      activities_of messages_of =
     (let isSupplierInvoice = is_supplier_invoice (iv_move_type invoice);
          pdfAttachment = find (\<lambda>att. att_mimetype att = ''application/pdf'') attachments_of;
          pdfUrl =
            (if isSupplierInvoice
             then (case pdfAttachment of Some att \<Rightarrow> att_url att
                   | None \<Rightarrow> report_url cfg invoiceId)
             else report_url cfg invoiceId);
          finalBankAccountNumber = (if isSupplierInvoice then bankAccountNumber else None)
      in \<lparr>inv_id = invoiceId, inv_name = iv_name invoice,
          inv_ref = (case iv_ref invoice of Some r \<Rightarrow> r | None \<Rightarrow> ''''),
          inv_date = iv_date invoice, inv_invoice_date = iv_invoice_date invoice,
          inv_invoice_date_due = iv_invoice_date_due invoice, inv_state = iv_state invoice,
          inv_payment_state = iv_payment_state invoice, inv_move_type = iv_move_type invoice,
          inv_partner_id = iv_partner_id invoice,
          inv_partner_name = map_option snd (iv_partner_id invoice),
          inv_amount_total = iv_amount_total invoice,
          inv_amount_residual = iv_amount_residual invoice,
          inv_currency_id = iv_currency_id invoice,
          inv_partner_bank_id = iv_partner_bank_id invoice,
          inv_bank_account_number = finalBankAccountNumber, inv_pdf_url = pdfUrl,
          inv_invoice_line_ids = invoiceLines, inv_attachment_ids = None,
          ind_invoice_origin = iv_invoice_origin invoice,
          ind_invoice_payment_term_id = iv_invoice_payment_term_id invoice,
          ind_fiscal_position_id = iv_fiscal_position_id invoice,
          ind_invoice_user_id = iv_invoice_user_id invoice,
          ind_invoice_source_email = iv_invoice_source_email invoice,
          ind_narration = iv_narration invoice,
          ind_amount_untaxed = iv_amount_untaxed invoice,
          ind_amount_tax = iv_amount_tax invoice,
          ind_attachments = attachments_of, ind_activities = activities_of,
          ind_messages = messages_of, ind_journal_id = iv_journal_id invoice\<rparr>)"

definition getInvoiceDetails :: "OdooClient \<Rightarrow> int \<Rightarrow> InvoiceDetails action" where
  "getInvoiceDetails c invoiceId =
     (if \<not> truthy_id (uid c) then throwE not_authenticated
      else catchE
        (thenE (callRPC (InvoiceSearchReadId invoiceId) (srv_invoice_search_read_id invoiceId))
           (\<lambda>invoiceList.
              case invoiceList of
                [] \<Rightarrow> throwE (Error (''Invoice with ID '' @ int_to_string invoiceId @ '' not found''))
              | invoice # _ \<Rightarrow>
                  let lineIds = iv_invoice_line_ids invoice
                  in thenE
                    (if lineIds \<noteq> []
                     then callRPC (InvoiceLineSearchRead lineIds)
                            (srv_invoice_line_search_read lineIds)
                     else returnE [])
                    (\<lambda>invoiceLines.
                       thenE
                         (case iv_partner_bank_id invoice of
                            Some (bankId, _) \<Rightarrow>
                              thenE (callRPC (PartnerBankSearchReadId bankId)
                                       (srv_bank_search_read_id bankId))
                                (\<lambda>bankList. returnE
                                   (case bankList of [] \<Rightarrow> None | accNumber # _ \<Rightarrow> Some accNumber))
                          | None \<Rightarrow> returnE None)
                         (\<lambda>bankAccountNumber.
                            thenE (callRPC (AttachmentSearchReadId invoiceId)
                                     (srv_attachment_search_read_id invoiceId))
                              (\<lambda>attachmentsResult.
                                 thenE (callRPC (ActivitySearchRead invoiceId)
                                          (srv_activity_search_read invoiceId))
                                   (\<lambda>activitiesResult.
                                      thenE (callRPC (MessageSearchRead invoiceId)
                                               (srv_message_search_read invoiceId))
                                        (\<lambda>messagesResult. returnE
                                           (to_details (config c) invoiceId invoice invoiceLines
                                              bankAccountNumber
                                              (map (to_attachment (config c)) attachmentsResult)
                                              activitiesResult messagesResult))))))))
        (\<lambda>error. throwE error))"

definition checkJournalEntryExists :: "OdooClient \<Rightarrow> string \<Rightarrow> bool action" where
  "checkJournalEntryExists c r =
     (if \<not> truthy_id (uid c) then throwE not_authenticated
      else catchE
        (thenE (callRPC (MoveSearchReadRef r) (srv_move_search_read_ref r))
           (\<lambda>result. returnE (result \<noteq> [])))
        (\<lambda>error. returnE True))"

definition createJournalEntry :: "OdooClient \<Rightarrow> JournalEntry \<Rightarrow> int action" where
  "createJournalEntry c entry =
     (if \<not> truthy_id (uid c) then throwE not_authenticated
      else if dryRun c
      then thenE (logE (DryRunWouldCreateJournalEntry (je_ref entry))) (\<lambda>_. returnE 999999)
      else catchE (callRPC (MoveCreate entry) (srv_move_create entry)) (\<lambda>error. throwE error))"

definition getAccountIdByName :: "OdooClient \<Rightarrow> string \<Rightarrow> int option action" where
  "getAccountIdByName c accountName =
     (if \<not> truthy_id (uid c) then throwE not_authenticated
      else catchE
        (thenE (callRPC (AccountSearchReadName accountName)
                  (srv_account_search_read_name accountName))
           (\<lambda>result. returnE (case result of [] \<Rightarrow> None | a # _ \<Rightarrow> Some (ac_id a))))
        (\<lambda>error. returnE None))"

definition postJournalEntry :: "OdooClient \<Rightarrow> int \<Rightarrow> bool action" where
  "postJournalEntry c moveId =
     (if \<not> truthy_id (uid c) then throwE not_authenticated
      else if dryRun c
      then thenE (logE (DryRunWouldPostJournalEntry moveId)) (\<lambda>_. returnE True)
      else catchE
        (thenE (callRPC (MoveActionPost moveId) (srv_move_action_post moveId))
           (\<lambda>_. returnE True))
        (\<lambda>error. returnE False))"

definition identifierString :: "BankAccountIdentifier \<Rightarrow> string" where
  \<comment> \<open>\<open>identifier.iban || `${identifier.bic}:${identifier.accountNumber}`\<close>\<close>
  "identifierString b =
     (if truthy_string (bi_iban b) then the (bi_iban b)
      else (case bi_bic b of Some s \<Rightarrow> s | None \<Rightarrow> ''undefined'') @ '':'' @
           (case bi_accountNumber b of Some s \<Rightarrow> s | None \<Rightarrow> ''undefined''))"

definition getPartnerIdByBankIdentifier :: "OdooClient \<Rightarrow> BankAccountIdentifier \<Rightarrow> int option action" where
  "getPartnerIdByBankIdentifier c identifier =
     (if \<not> truthy_id (uid c) then throwE not_authenticated
      else catchE
        (thenE (callRPC (PartnerBankSearchReadAccIlike (identifierString identifier))
                  (srv_bank_search_read_acc_ilike (identifierString identifier)))
           (\<lambda>result. returnE (case result of [] \<Rightarrow> None | i # _ \<Rightarrow> Some i)))
        (\<lambda>error. returnE None))"

definition getPartnerIdByName :: "OdooClient \<Rightarrow> string \<Rightarrow> int option action" where
  "getPartnerIdByName c partnerName =
     (if \<not> truthy_id (uid c) then throwE not_authenticated
      else catchE
        (thenE (callRPC (PartnerSearchReadName partnerName)
                  (srv_partner_search_read_name partnerName))
           (\<lambda>result. returnE (case result of [] \<Rightarrow> None | i # _ \<Rightarrow> Some i)))
        (\<lambda>error. returnE None))"

definition getAccounts :: "OdooClient \<Rightarrow> Account list action" where
  "getAccounts c =
     (if \<not> truthy_id (uid c) then throwE not_authenticated
      else catchE
        (thenE (callRPC AccountSearchRead srv_account_search_read)
           (\<lambda>result. returnE
              (map (\<lambda>item.
                 \<lparr>acct_id = ac_id item, acct_name = ac_name item, acct_code = ac_code item,
                   acct_type = ac_account_type item\<rparr>)
                 (filter (\<lambda>item. ac_account_type item \<notin> set
                    [''view'', ''asset_fixed'', ''liability_non_current'', ''equity'',
                     ''liability_current'', ''asset_current'', ''expense'', ''expense_other''])
                    result))))
        (\<lambda>error. throwE error))"

definition findBankAccountByIdentifier :: "OdooClient \<Rightarrow> BankAccountIdentifier \<Rightarrow> int option action" where
  "findBankAccountByIdentifier c bankAccountIdentifier =
     (if \<not> truthy_id (uid c) then throwE not_authenticated
      else catchE
        (thenE (callRPC (PartnerBankSearchReadAcc (identifierString bankAccountIdentifier))
                  (srv_bank_search_read_acc (identifierString bankAccountIdentifier)))
           (\<lambda>result. returnE (case result of [] \<Rightarrow> None | i # _ \<Rightarrow> Some i)))
        (\<lambda>error. returnE None))"

definition createPartner ::
  "OdooClient \<Rightarrow> string \<Rightarrow> string option \<Rightarrow> int option \<Rightarrow> int option \<Rightarrow> int action" where
  "createPartner c partnerName address receivableAccountId payableAccountId =
     (if \<not> truthy_id (uid c) then throwE not_authenticated
      else if dryRun c
      then thenE (logE (DryRunWouldCreatePartner partnerName)) (\<lambda>_. returnE 999999)
      else catchE
        (let partnerData =
            \<lparr>pc_name = partnerName, pc_is_company = False, pc_customer_rank = 1,
              pc_supplier_rank = 0,
              pc_street = (if truthy_string address then address else None),
              pc_property_account_receivable_id =
                (if truthy_id receivableAccountId then receivableAccountId else None),
              pc_property_account_payable_id =
                (if truthy_id payableAccountId then payableAccountId else None)\<rparr>
         in callRPC (PartnerCreate partnerData) (srv_partner_create partnerData))
        (\<lambda>error. throwE error))"

definition createBankAccount :: "OdooClient \<Rightarrow> string \<Rightarrow> int \<Rightarrow> string option \<Rightarrow> int action" where
  "createBankAccount c iban partnerId accountName =
     (if \<not> truthy_id (uid c) then throwE not_authenticated
      else if dryRun c
      then thenE (logE (DryRunWouldCreateBankAccount iban partnerId)) (\<lambda>_. returnE 888888)
      else catchE
        (let bankData =
            \<lparr>bc_acc_number = iban, bc_partner_id = partnerId, bc_acc_type = ''iban'',
              bc_acc_holder_name = (if truthy_string accountName then accountName else None)\<rparr>
         in callRPC (PartnerBankCreate bankData) (srv_bank_create bankData))
        (\<lambda>error. throwE error))"

definition findOrCreateBankAccount ::
  "OdooClient \<Rightarrow> BankAccountIdentifier \<Rightarrow> string \<Rightarrow> string option \<Rightarrow> int action" where
  "findOrCreateBankAccount c bankAccountIdentifier partnerName partnerAddress =
     thenE (findBankAccountByIdentifier c bankAccountIdentifier)
       (\<lambda>bankAccountId.
          if truthy_id bankAccountId then returnE (the bankAccountId)
          else thenE (getPartnerIdByName c partnerName)
            (\<lambda>partnerId.
               thenE (if \<not> truthy_id partnerId
                      then createPartner c partnerName partnerAddress None None
                      else returnE (the partnerId))
                 (\<lambda>partnerId.
                    createBankAccount c (identifierString bankAccountIdentifier) partnerId
                      (Some partnerName))))"

section \<open>The import: test "import txs" (src/unnamed/part_004)\<close>

text \<open>
  The functions of the import script, in the order of the source. The script reaches the
  ledger through its own \<open>callRPC\<close> helper, which calls the client's private \<open>callRPC\<close>
  and does not look at the uid, and through the client's methods, which do.
\<close>

definition findOrCreatePartnerByName ::
  "OdooClient \<Rightarrow> string \<Rightarrow> bool \<Rightarrow> int option \<Rightarrow> int option \<Rightarrow> int action" where
  "findOrCreatePartnerByName c name dry receivableAccountId payableAccountId =
     (if trim name = '''' then returnE 0
      else thenE (getPartnerIdByName c name)
        (\<lambda>partnerId.
           if truthy_id partnerId then returnE (the partnerId)
           else if dry
           then thenE (logE (DryRunWouldCreatePartner name)) (\<lambda>_. returnE 999999)
           else createPartner c name None receivableAccountId payableAccountId))"

definition findOrCreatePartnerBank ::
  "OdooClient \<Rightarrow> int \<Rightarrow> string \<Rightarrow> bool \<Rightarrow> int option \<Rightarrow> int option \<Rightarrow> int action" where
  "findOrCreatePartnerBank c partnerId iban dry receivableAccountId payableAccountId =
     (let acc = normalizeAcc iban
      in if acc = '''' then returnE 0
         else thenE
           (findBankAccountByIdentifier c
              \<lparr>bi_standard = ''iban'', bi_iban = Some acc, bi_bic = None, bi_accountNumber = None\<rparr>)
           (\<lambda>bankAccountId.
              if truthy_id bankAccountId then returnE (the bankAccountId)
              else if dry
              then thenE (logE (DryRunWouldCreateBankAccount acc partnerId)) (\<lambda>_. returnE 888888)
              else thenE
                (if partnerId \<noteq> 0 then returnE partnerId
                 else findOrCreatePartnerByName c ''Unknown'' dry receivableAccountId
                        payableAccountId)
                (\<lambda>pid. createBankAccount c acc pid None)))"

definition monthKeyFromISO :: "string \<Rightarrow> string" where
  "monthKeyFromISO isoDay = take 7 isoDay"

definition firstDayOfMonthISO :: "string \<Rightarrow> string" where
  "firstDayOfMonthISO monthKey = monthKey @ ''-01''"

definition getOrCreateMonthlyStatement :: "int \<Rightarrow> string \<Rightarrow> bool \<Rightarrow> int action" where
  "getOrCreateMonthlyStatement journalId monthKey dry =
     (let name = ''Feed '' @ monthKey
      in thenE (callRPC (StatementSearchReadName journalId name)
                  (srv_statement_search_read_name journalId name))
           (\<lambda>found.
              case found of
                i # _ \<Rightarrow> returnE i
              | [] \<Rightarrow>
                  if dry
                  then thenE (logE (DryRunWouldCreateStatement name journalId))
                         (\<lambda>_. returnE 777777)
                  else callRPC (StatementCreate name journalId (firstDayOfMonthISO monthKey))
                         (srv_statement_create name journalId (firstDayOfMonthISO monthKey))))"

definition js_round2 :: "rat \<Rightarrow> rat" where
  \<comment> \<open>\<open>+x.toFixed(2)\<close>: the text of \<open>toFixed\<close> read back as a number; from \<open>10 ^ 21\<close> on
      \<open>toFixed\<close> prints the number itself\<close>
  "js_round2 x =
     (if 10 ^ 21 \<le> \<bar>x\<bar> then x else to_double (sgn x * of_int (nearest_fixed x 2) / 100))"

definition sumStatementLineAmounts :: "int \<Rightarrow> rat action" where
  "sumStatementLineAmounts statementId =
     thenE (callRPC (LineSearchReadStatement statementId)
              (srv_line_search_read_statement statementId))
       (\<lambda>amounts.
          let total = foldl (\<lambda>acc amount. js_add acc amount) 0 amounts
          in returnE (js_round2 total))"

definition closeStatementIfNeeded :: "int \<Rightarrow> bool \<Rightarrow> unit action" where
  "closeStatementIfNeeded statementId dry =
     thenE (callRPC (StatementRead statementId) (srv_statement_read statementId))
       (\<lambda>recs.
          case recs of
            [] \<Rightarrow> returnE ()
          | st # _ \<Rightarrow>
              let start = (case st_balance_start st of Some b \<Rightarrow> b | None \<Rightarrow> 0)
              in thenE
                (case st_balance_end_real st of
                   Some endReal \<Rightarrow> returnE endReal
                 | None \<Rightarrow>
                     thenE (sumStatementLineAmounts statementId)
                       (\<lambda>sumLines.
                          let endReal = js_round2 (js_add start sumLines)
                          in thenE
                            (if dry then logE (DryRunWouldUpdateBalance statementId endReal)
                             else thenE (callRPC (StatementWrite statementId endReal)
                                           (srv_statement_write statementId endReal))
                                    (\<lambda>_. returnE ()))
                            (\<lambda>_. returnE endReal)))
                (\<lambda>endReal.
                   if dry then logE (DryRunWouldClose statementId endReal)
                   else catchE
                     (thenE (callRPC (StatementButtonPost statementId)
                               (srv_statement_button_post statementId))
                        (\<lambda>_. logE (ClosedStatement statementId endReal)))
                     (\<lambda>_. logE (PostingNotAvailable statementId))))"

fun js_string_less :: "string \<Rightarrow> string \<Rightarrow> bool" where
  \<comment> \<open>\<open><\<close> on strings: code unit by code unit, a proper prefix first\<close>
  "js_string_less [] [] = False"
| "js_string_less [] (y # ys) = True"
| "js_string_less (x # xs) [] = False"
| "js_string_less (x # xs) (y # ys) =
     ((of_char x :: int) < of_char y \<or> (x = y \<and> js_string_less xs ys))"

definition is_month_key :: "string \<Rightarrow> bool" where
  \<comment> \<open>the group \<open>\d{4}-\d{2}\<close>\<close>
  "is_month_key m =
     (case m of
        [a, b, c, d, e, f, g] \<Rightarrow>
          is_digit a \<and> is_digit b \<and> is_digit c \<and> is_digit d \<and> e = CHR ''-'' \<and> is_digit f \<and> is_digit g
      | _ \<Rightarrow> False)"

definition feed_month :: "string \<Rightarrow> string option" where
  \<comment> \<open>\<open>name.match(/^Feed (\d{4}-\d{2})$/)\<close>: the month of a statement name\<close>
  "feed_month name =
     (if take 5 name = ''Feed '' \<and> is_month_key (drop 5 name) then Some (drop 5 name) else None)"

fun close_past :: "(int \<times> string) list \<Rightarrow> string \<Rightarrow> bool \<Rightarrow> unit action" where
  \<comment> \<open>the loop of \<open>closeAllPastMonthlyStatements\<close>\<close>
  "close_past [] currentMonthKey dry = returnE ()"
| "close_past ((i, name) # sts) currentMonthKey dry =
     thenE
       (case feed_month name of
          None \<Rightarrow> returnE ()
        | Some stMonth \<Rightarrow>
            if js_string_less stMonth currentMonthKey then closeStatementIfNeeded i dry
            else returnE ())
       (\<lambda>_. close_past sts currentMonthKey dry)"

definition closeAllPastMonthlyStatements :: "int \<Rightarrow> string \<Rightarrow> bool \<Rightarrow> unit action" where
  "closeAllPastMonthlyStatements journalId currentMonthKey dry =
     thenE (callRPC (StatementSearchReadJournal journalId)
              (srv_statement_search_read_journal journalId))
       (\<lambda>allSts. close_past allSts currentMonthKey dry)"

text \<open>
  The constants of \<open>main\<close> that the import reads: the journal, the tracked wallet, the token,
  the month key of the wall clock, and the default receivable and payable accounts that
  the preflight looked up.
\<close>

record import_env =
  journalId :: int
  walletAddress :: string
  tokenAddress :: string
  currentMonthKey :: string
  defaultReceivableAccountId :: int
  defaultPayableAccountId :: int

subsection \<open>Dates\<close>

definition parseInt :: "string \<Rightarrow> rat option" where
  \<comment> \<open>\<open>parseInt(s)\<close> without a radix: leading white space, a sign, then the longest run
      of digits (hexadecimal after \<open>0x\<close>); \<open>None\<close> is \<open>NaN\<close>\<close>
  "parseInt s =
     (let t = dropWhile is_space s;
          neg = (t \<noteq> [] \<and> hd t = CHR ''-'');
          t = (if t \<noteq> [] \<and> (hd t = CHR ''-'' \<or> hd t = CHR ''+'') then tl t else t);
          hex = (take 2 t \<in> {''0x'', ''0X''});
          b = (if hex then 16 else 10);
          t = (if hex then drop 2 t else t);
          ds = takeWhile (\<lambda>c. case digit_value c of Some d \<Rightarrow> d < b | None \<Rightarrow> False) t
      in case parse_nat b ds of
           None \<Rightarrow> None
         | Some n \<Rightarrow> Some (to_double (of_int (if neg then - n else n))))"

definition pad2 :: "int \<Rightarrow> string" where
  "pad2 n = (if n < 10 then CHR ''0'' # digits10 n else digits10 n)"

definition iso_year :: "int \<Rightarrow> string" where
  \<comment> \<open>four digits from 0 to 9999, a sign and six digits otherwise\<close>
  "iso_year y =
     (if 0 \<le> y \<and> y \<le> 9999 then replicate (4 - length (digits10 y)) (CHR ''0'') @ digits10 y
      else (if y < 0 then ''-'' else ''+'') @
           replicate (6 - length (digits10 \<bar>y\<bar>)) (CHR ''0'') @ digits10 \<bar>y\<bar>)"

definition iso_day_of_days :: "int \<Rightarrow> string" where
  \<comment> \<open>the civil date of a day number counted from 1970-01-01, as \<open>YYYY-MM-DD\<close>\<close>
  "iso_day_of_days days =
     (let z = days + 719468;
          era = z div 146097;
          doe = z - era * 146097;
          yoe = (doe - doe div 1460 + doe div 36524 - doe div 146096) div 365;
          doy = doe - (365 * yoe + yoe div 4 - yoe div 100);
          mp = (5 * doy + 2) div 153;
          d = doy - (153 * mp + 2) div 5 + 1;
          m = (if mp < 10 then mp + 3 else mp - 9);
          y = yoe + era * 400 + (if m \<le> 2 then 1 else 0)
      in iso_year y @ ''-'' @ pad2 m @ ''-'' @ pad2 d)"

definition isoDate :: "string \<Rightarrow> js_error + string" where
  \<comment> \<open>\<open>new Date(parseInt(timeStamp) * 1000).toISOString().split("T")[0]\<close>\<close>
  "isoDate timeStamp =
     (case parseInt timeStamp of
        None \<Rightarrow> Inl (RangeError ''Invalid time value'')
      | Some secs \<Rightarrow>
          let ms = to_double (secs * 1000)
          in if 8640000000000000 < \<bar>ms\<bar> then Inl (RangeError ''Invalid time value'')
             else Inr (iso_day_of_days (\<lfloor>ms\<rfloor> div 86400000)))"

subsection \<open>Grouping and the loop over months\<close>

type_synonym dated_transfer = "EtherscanTokenTransfer \<times> string"

definition add_to_month ::
  "string \<Rightarrow> dated_transfer \<Rightarrow> (string \<times> dated_transfer list) list
     \<Rightarrow> (string \<times> dated_transfer list) list" where
  \<comment> \<open>\<open>if (!byMonth.has(mk)) byMonth.set(mk, []); byMonth.get(mk).push(item)\<close>: a
      \<open>Map\<close> keeps its keys in the order of their first insertion\<close>
  "add_to_month mk item byMonth =
     (if mk \<in> set (map fst byMonth)
      then map (\<lambda>(k, items). if k = mk then (k, items @ [item]) else (k, items)) byMonth
      else byMonth @ [(mk, [item])])"

fun group_by_month ::
  "EtherscanTokenTransfer list \<Rightarrow> (string \<times> dated_transfer list) list
     \<Rightarrow> js_error + (string \<times> dated_transfer list) list" where
  "group_by_month [] byMonth = Inr byMonth"
| "group_by_month (r # rs) byMonth =
     (case isoDate (tx_timeStamp r) of
        Inl e \<Rightarrow> Inl e
      | Inr isoDay \<Rightarrow>
          group_by_month rs (add_to_month (monthKeyFromISO isoDay) (r, isoDay) byMonth))"

definition formatUnits :: "int \<Rightarrow> nat \<Rightarrow> rat" where
  \<comment> \<open>viem's \<open>formatUnits\<close>, which is not part of the repository: the decimal text of
      \<open>value / 10 ^ decimals\<close>, exact; the model keeps the number the text denotes\<close>
  "formatUnits v decimals = of_int v / 10 ^ decimals"

definition ensure_partner_accounts :: "int \<Rightarrow> import_env \<Rightarrow> unit action" where
  \<comment> \<open>lines 793 to 865 of \<open>main\<close>: the partner of the bank account gets the default
      receivable and payable accounts it lacks\<close>
  "ensure_partner_accounts partnerBankId env =
     thenE (callRPC (PartnerBankRead partnerBankId) (srv_bank_read partnerBankId))
       (\<lambda>pb.
          case pb of
            [] \<Rightarrow> throwE (TypeError ''Cannot read properties of undefined'')
          | partnerId # _ \<Rightarrow>
              if partnerId = 0 then returnE ()
              else thenE (callRPC (PartnerRead partnerId) (srv_partner_read partnerId))
                (\<lambda>ps.
                   case ps of
                     [] \<Rightarrow> returnE ()
                   | partner # _ \<Rightarrow>
                       let receivable = (if pt_receivable partner = None
                                         then Some (defaultReceivableAccountId env) else None);
                           payable = (if pt_payable partner = None
                                      then Some (defaultPayableAccountId env) else None)
                       in if receivable \<noteq> None \<or> payable \<noteq> None
                          then thenE (callRPC (PartnerWrite partnerId receivable payable)
                                        (srv_partner_write partnerId receivable payable))
                                 (\<lambda>_. returnE ())
                          else returnE ()))"

definition dedup_key :: "EtherscanTokenTransfer \<Rightarrow> string \<Rightarrow> string" where
  \<comment> \<open>\<open>`${r.hash}:${r.transactionIndex}:${tokenAddress}`\<close>\<close>
  "dedup_key r token = tx_hash r @ '':'' @ tx_transactionIndex r @ '':'' @ token"

definition unique_import_id_of :: "EtherscanTokenTransfer \<Rightarrow> string option" where
  \<comment> \<open>\<open>if (r.hash?.trim()) payload.unique_import_id = r.hash.trim()\<close>\<close>
  "unique_import_id_of r = (if trim (tx_hash r) \<noteq> '''' then Some (trim (tx_hash r)) else None)"

definition process_transfer ::
  "OdooClient \<Rightarrow> import_env \<Rightarrow> int \<Rightarrow> string \<Rightarrow> dated_transfer \<Rightarrow> unit action" where
  \<comment> \<open>the body of the loop over the transfers of a month, lines 774 to 909 of \<open>main\<close>\<close>
  "process_transfer c env stId monthKey item =
     (let r = fst item; date = snd item
      in case BigInt_string (tx_value r) of
           Inl e \<Rightarrow> throwE e
         | Inr v \<Rightarrow>
             let amount = formatUnits v 18;
                 partnerAddress = (if tx_from r = walletAddress env then tx_to r else tx_from r)
             in thenE
               (findOrCreatePartnerBank c 0 (toLowerCase partnerAddress) (dryRun c)
                  (Some (defaultReceivableAccountId env)) (Some (defaultPayableAccountId env)))
               (\<lambda>partnerBankId.
                  thenE
                    (if partnerBankId \<noteq> 0 \<and> \<not> dryRun c
                     then ensure_partner_accounts partnerBankId env else returnE ())
                    (\<lambda>_.
                       let payload =
                             \<lparr>pl_statement_id = stId, pl_date = date,
                               pl_payment_ref = dedup_key r (tokenAddress env),
                               pl_amount = amount,
                               pl_name = ''Blockchain tx '' @ take 10 (tx_hash r),
                               pl_unique_import_id = unique_import_id_of r\<rparr>
                       in thenE
                         (case pl_unique_import_id payload of
                            None \<Rightarrow> returnE False
                          | Some u \<Rightarrow>
                              thenE (callRPC (LineSearchImportId u) (srv_line_search_import_id u))
                                (\<lambda>dup. returnE (dup \<noteq> [])))
                         (\<lambda>duplicate.
                            if duplicate then logE (SkipDuplicate (tx_hash r))
                            else if dryRun c then logE (DryRunWouldCreateLine (tx_hash r))
                            else thenE (callRPC (LineCreate payload) (srv_line_create payload))
                                   (\<lambda>_. logE (LineCreated monthKey (tx_hash r)))))))"

fun process_items ::
  "OdooClient \<Rightarrow> import_env \<Rightarrow> int \<Rightarrow> string \<Rightarrow> dated_transfer list \<Rightarrow> unit action" where
  "process_items c env stId monthKey [] = returnE ()"
| "process_items c env stId monthKey (item # items) =
     thenE (process_transfer c env stId monthKey item)
       (\<lambda>_. process_items c env stId monthKey items)"

fun process_months ::
  "OdooClient \<Rightarrow> import_env \<Rightarrow> (string \<times> dated_transfer list) list \<Rightarrow> unit action" where
  "process_months c env [] = returnE ()"
| "process_months c env ((monthKey, items) # rest) =
     thenE (getOrCreateMonthlyStatement (journalId env) monthKey (dryRun c))
       (\<lambda>stId.
          thenE (process_items c env stId monthKey items)
            (\<lambda>_.
               thenE
                 (if js_string_less monthKey (currentMonthKey env)
                  then closeStatementIfNeeded stId (dryRun c)
                  else logE (KeepingOpen monthKey))
                 (\<lambda>_. process_months c env rest)))"

definition main_import :: "OdooClient \<Rightarrow> import_env \<Rightarrow> EtherscanTokenTransfer list \<Rightarrow> unit action" where
  \<comment> \<open>\<open>main\<close> from the grouping by month on (lines 752 to 927); the preflight before it
      authenticates, checks the journal and exits the process on a misconfiguration. The
      script's \<open>dryRun\<close> is the flag the client was built with.\<close>
  "main_import c env txsTransfers =
     (case group_by_month txsTransfers [] of
        Inl e \<Rightarrow> throwE e
      | Inr byMonth \<Rightarrow>
          thenE (process_months c env byMonth)
            (\<lambda>_.
               thenE (closeAllPastMonthlyStatements (journalId env) (currentMonthKey env) (dryRun c))
                 (\<lambda>_. logE ImportDone)))"

section \<open>Example data\<close>

text \<open>
  A small ledger, a client and two transfers of the tracked wallet on 2024-09-15, one in and
  one out, for the concrete runs below.
\<close>

definition empty_ledger :: world where
  "empty_ledger =
     \<lparr>statements = [], lines = [], partners = [], banks = [], move_lines = [], moves = [],
      journals = [], accounts = [], invoices = [], invoice_lines = [], attachments = [],
      activities = [], messages = [],
      next_id = 1, login_uid = Some 2, calls = [], faults = [], console = []\<rparr>"

definition example_config :: OdooConfig where
  "example_config =
     \<lparr>cfg_url = ''https://odoo.example.org'', cfg_database = ''books'',
      cfg_username = ''importer'', cfg_password = ''secret''\<rparr>"

definition example_client :: OdooClient where
  "example_client = \<lparr>config = example_config, uid = Some 2, dryRun = False\<rparr>"

definition example_dry_client :: OdooClient where
  "example_dry_client = \<lparr>config = example_config, uid = Some 2, dryRun = True\<rparr>"

definition example_env :: import_env where
  "example_env =
     \<lparr>journalId = 55, walletAddress = ''0x6fDF'', tokenAddress = ''0x420C'',
      currentMonthKey = ''2024-11'', defaultReceivableAccountId = 7,
      defaultPayableAccountId = 8\<rparr>"

definition incoming_transfer :: EtherscanTokenTransfer where
  "incoming_transfer =
     \<lparr>tx_blockNumber = ''36000001'', tx_timeStamp = ''1726358400'', tx_hash = ''0xaa'',
      tx_from = ''0xB0B'', tx_contractAddress = ''0x420C'', tx_to = ''0x6fDF'',
      tx_value = ''1000000000000000000'', tx_tokenDecimal = ''18'',
      tx_transactionIndex = ''1''\<rparr>"

definition outgoing_transfer :: EtherscanTokenTransfer where
  "outgoing_transfer =
     \<lparr>tx_blockNumber = ''36000002'', tx_timeStamp = ''1726358500'', tx_hash = ''0xbb'',
      tx_from = ''0x6fDF'', tx_contractAddress = ''0x420C'', tx_to = ''0xB0B'',
      tx_value = ''2500000000000000000'', tx_tokenDecimal = ''18'',
      tx_transactionIndex = ''3''\<rparr>"

definition reorganized_transfer :: EtherscanTokenTransfer where
  \<comment> \<open>the incoming transfer, mined again at another place of its block\<close>
  "reorganized_transfer = incoming_transfer\<lparr>tx_transactionIndex := ''9''\<rparr>"

section \<open>Properties of actions\<close>

text \<open>
  \<open>ensures R f\<close>: whatever \<open>f\<close> returns, the world it leaves is related by \<open>R\<close> to the
  world it started from. \<open>only_reads\<close> relates two worlds whose ledgers are equal, the
  later one having seen more remote calls, none of them a write. \<open>caught_call\<close> names the
  remote calls of the import whose failure the code catches: the two lookups of the client
  and the post of a statement. \<open>fatal_faults f\<close>: when a remote call that \<open>f\<close> issues
  raises and is not one of those, \<open>f\<close> ends in the error of that call and that call is
  its last.
\<close>

definition preorder_on_worlds :: "(world \<Rightarrow> world \<Rightarrow> bool) \<Rightarrow> bool" where
  "preorder_on_worlds R = ((\<forall>w. R w w) \<and> (\<forall>a b c. R a b \<longrightarrow> R b c \<longrightarrow> R a c))"

definition ensures :: "(world \<Rightarrow> world \<Rightarrow> bool) \<Rightarrow> 'a action \<Rightarrow> bool" where
  "ensures R f = (\<forall>w. R w (snd (f w)))"

definition ledger_tables ::
  "world \<Rightarrow> statement_rec list \<times> line_rec list \<times> partner_rec list \<times> bank_rec list
     \<times> move_line_rec list \<times> move_rec list \<times> int \<times> int option \<times> nat list
     \<times> journal_rec list \<times> account_rec list \<times> invoice_rec list \<times> InvoiceLine list
     \<times> attachment_rec list \<times> activity_rec list \<times> message_rec list" where
  "ledger_tables w =
     (statements w, lines w, partners w, banks w, move_lines w, moves w, next_id w,
      login_uid w, faults w, journals w, accounts w, invoices w, invoice_lines w,
      attachments w, activities w, messages w)"

definition only_reads :: "world \<Rightarrow> world \<Rightarrow> bool" where
  "only_reads w w' =
     (ledger_tables w' = ledger_tables w
      \<and> (\<exists>cs. calls w' = calls w @ cs \<and> (\<forall>c \<in> set cs. \<not> is_write_call c)))"



definition new_OdooClient :: "OdooConfig \<Rightarrow> bool \<Rightarrow> OdooClient" where
  \<comment> \<open>the constructor: \<open>uid\<close> starts as \<open>null\<close>\<close>
  "new_OdooClient cfg dry = \<lparr>config = cfg, uid = None, dryRun = dry\<rparr>"

definition same_lines :: "world \<Rightarrow> world \<Rightarrow> bool" where
  "same_lines w w' = (lines w' = lines w)"

definition imports_exactly :: "EtherscanTokenTransfer set \<Rightarrow> string \<Rightarrow> world \<Rightarrow> world \<Rightarrow> bool" where
  \<comment> \<open>from \<open>w\<close> to \<open>w'\<close> the ledger gained one line for each import id of \<open>T\<close> that had no
      line in \<open>w\<close>, and nothing else changed among the lines\<close>
  "imports_exactly T token w w' =
     (\<exists>new. lines w' = lines w @ new
        \<and> distinct (map ln_unique_import_id new)
        \<and> set (map ln_unique_import_id new) = unique_import_id_of ` T - set (map ln_unique_import_id (lines w))
        \<and> (\<forall>l \<in> set new. \<exists>r \<in> T. ln_unique_import_id l = unique_import_id_of r
               \<and> ln_payment_ref l = dedup_key r token))"

definition returning :: "(world \<Rightarrow> world \<Rightarrow> bool) \<Rightarrow> 'a action \<Rightarrow> bool" where
  \<comment> \<open>whenever the action returns (rather than raises), \<open>R\<close> relates the ledger before to the
      ledger after\<close>
  "returning R f = (\<forall>w y w'. f w = (Inr y, w') \<longrightarrow> R w w')"

subsection \<open>A ledger with one period\<close>

definition ledger_with_period :: "rat option \<Rightarrow> rat option \<Rightarrow> rat list \<Rightarrow> world" where
  \<comment> \<open>a ledger with the period of September 2024 of journal 55, its opening and closing
      balance as given, and one line for each amount\<close>
  "ledger_with_period start endReal amounts =
     \<lparr>statements =
        [\<lparr>st_id = 40, st_journal_id = 55, st_name = ''Feed 2024-09'', st_date = ''2024-09-01'',
          st_balance_start = start, st_balance_end_real = endReal, st_posted = False\<rparr>],
      lines = map (\<lambda>a. \<lparr>ln_id = 41, ln_statement_id = 40, ln_date = ''2024-09-02'',
          ln_payment_ref = ''0xcc:0:0x420C'', ln_amount = a, ln_name = ''Blockchain tx 0xcc'',
          ln_unique_import_id = Some ''0xcc''\<rparr>) amounts,
      partners = [], banks = [], move_lines = [], moves = [],
      journals = [], accounts = [], invoices = [], invoice_lines = [], attachments = [],
      activities = [], messages = [],
      next_id = 100, login_uid = Some 2, calls = [], faults = [], console = []\<rparr>"

subsection \<open>Which periods a run closes\<close>

text \<open>
  \<open>updated_statement\<close> names the period a remote call changes: the two calls of the close
  procedure that change one are the write of the closing balance and the post.
  \<open>past_period j cur w i\<close>: the ledger has a period with identifier \<open>i\<close> in journal \<open>j\<close> whose
  name is \<open>Feed\<close> followed by a month key below \<open>cur\<close>. \<open>updates_within S\<close> relates a ledger to
  a later one that has the same periods, in the same order, followed by new ones, and has
  seen more remote calls, each of which changes only a period of \<open>S\<close>.
\<close>

fun updated_statement :: "rpc_call \<Rightarrow> int option" where
  "updated_statement (StatementWrite i endReal) = Some i"
| "updated_statement (StatementButtonPost i) = Some i"
| "updated_statement _ = None"

definition statement_key :: "statement_rec \<Rightarrow> int \<times> int \<times> string" where
  "statement_key s = (st_id s, st_journal_id s, st_name s)"

definition past_period :: "int \<Rightarrow> string \<Rightarrow> world \<Rightarrow> int \<Rightarrow> bool" where
  "past_period j cur w i =
     list_ex (\<lambda>s. st_id s = i \<and> st_journal_id s = j \<and> take 5 (st_name s) = ''Feed ''
                \<and> js_string_less (drop 5 (st_name s)) cur) (statements w)"

definition updates_within :: "int set \<Rightarrow> world \<Rightarrow> world \<Rightarrow> bool" where
  "updates_within S w w' =
     ((\<exists>more. map statement_key (statements w') = map statement_key (statements w) @ more)
      \<and> (\<exists>cs. calls w' = calls w @ cs
             \<and> (\<forall>c \<in> set cs. \<forall>i. updated_statement c = Some i \<longrightarrow> i \<in> S)))"

definition closes_only_past :: "int \<Rightarrow> string \<Rightarrow> world \<Rightarrow> world \<Rightarrow> bool" where
  "closes_only_past j cur w w' = updates_within {i. past_period j cur w' i} w w'"


subsection \<open>Whether the post of a period succeeds\<close>



subsection \<open>The remote calls an operation issues\<close>

definition calls_grow :: "world \<Rightarrow> world \<Rightarrow> bool" where
  \<comment> \<open>the later world has seen the remote calls of the earlier one, and maybe more\<close>
  "calls_grow w w' = (\<exists>cs. calls w' = calls w @ cs)"

section \<open>Normalisation of counterparty identifiers\<close>

lemma toUpperCase_char_idem: "toUpperCase_char (toUpperCase_char c) = toUpperCase_char c"
  by (auto simp: toUpperCase_char_def Let_def of_char_of)

lemma is_space_toUpperCase_char: "is_space (toUpperCase_char c) = is_space c"
  by (auto simp: toUpperCase_char_def is_space_def Let_def of_char_of)

lemma is_space_toLowerCase_char: "is_space (toLowerCase_char c) = is_space c"
  by (auto simp: toLowerCase_char_def is_space_def Let_def of_char_of)

lemma upper_lower_char: "toUpperCase_char (toLowerCase_char c) = toUpperCase_char c"
proof -
  have "char_of ((of_char c :: int) + 32 - 32) = c"
    by simp
  then show ?thesis
    by (auto simp: toUpperCase_char_def toLowerCase_char_def Let_def of_char_of)
qed

lemma strip_spaces_toUpperCase: "strip_spaces (toUpperCase s) = toUpperCase (strip_spaces s)"
  by (induction s) (auto simp: strip_spaces_def toUpperCase_def is_space_toUpperCase_char)

lemma strip_spaces_toLowerCase: "strip_spaces (toLowerCase s) = toLowerCase (strip_spaces s)"
  by (induction s) (auto simp: strip_spaces_def toLowerCase_def is_space_toLowerCase_char)

lemma strip_spaces_idem: "strip_spaces (strip_spaces s) = strip_spaces s"
  by (simp add: strip_spaces_def)

lemma toUpperCase_idem: "toUpperCase (toUpperCase s) = toUpperCase s"
  by (simp add: toUpperCase_def toUpperCase_char_idem)

lemma toUpperCase_toLowerCase: "toUpperCase (toLowerCase s) = toUpperCase s"
  by (simp add: toUpperCase_def toLowerCase_def upper_lower_char)

lemma normalizeIban_eq: "normalizeIban s = normalizeAcc s"
  by (simp add: normalizeIban_def normalizeAcc_def strip_spaces_toUpperCase)

lemma normalizeAcc_idem: "normalizeAcc (normalizeAcc s) = normalizeAcc s"
  by (simp add: normalizeAcc_def strip_spaces_toUpperCase strip_spaces_idem toUpperCase_idem)

lemma normalizeAcc_toLowerCase:
  "normalizeAcc (toLowerCase s) = toUpperCase (toLowerCase (strip_spaces s))"
  by (simp add: normalizeAcc_def strip_spaces_toLowerCase)


text \<open>
  Claim C10. The normalisation of a counterparty identifier (delete all white space, then
  upper-case) is idempotent, in the import script (\<open>normalizeAcc\<close>) and in the server
  (\<open>normalizeIban\<close>, which upper-cases first and computes the same string); and two raw
  addresses that differ only in letter case or white space reach the bank-account lookup
  with the same key. The script lower-cases the address before it calls
  \<open>findOrCreatePartnerBank\<close>, so the key of a raw address \<open>a\<close> is
  \<open>normalizeAcc (toLowerCase a)\<close>.
\<close>

theorem normalization_idempotent_same_key:
  assumes "ascii a" and "ascii b" and "same_modulo_case_and_space a b"
  shows "normalizeAcc (normalizeAcc a) = normalizeAcc a
    \<and> normalizeIban (normalizeIban a) = normalizeIban a
    \<and> normalizeAcc (toLowerCase a) = normalizeAcc (toLowerCase b)"
proof -
  have "toUpperCase (toLowerCase (strip_spaces a)) = toUpperCase (toLowerCase (strip_spaces b))"
    using assms(3) by (simp add: same_modulo_case_and_space_def)
  then have "normalizeAcc (toLowerCase a) = normalizeAcc (toLowerCase b)"
    by (simp add: normalizeAcc_toLowerCase)
  then show ?thesis
    by (simp add: normalizeAcc_idem normalizeIban_eq)
qed

theorem normalization_idempotent_same_key_witness:
  "ascii ''0xAb Cd'' \<and> ascii '' 0XaB cD'' \<and> same_modulo_case_and_space ''0xAb Cd'' '' 0XaB cD''
    \<and> normalizeAcc (normalizeAcc ''0xAb Cd'') = normalizeAcc ''0xAb Cd''
    \<and> normalizeIban (normalizeIban ''0xAb Cd'') = normalizeIban ''0xAb Cd''
    \<and> normalizeAcc (toLowerCase ''0xAb Cd'') = normalizeAcc (toLowerCase '' 0XaB cD'')
    \<and> normalizeAcc (toLowerCase ''0xAb Cd'') = ''0XABCD''"
proof -
  have a: "ascii ''0xAb Cd''" and b: "ascii '' 0XaB cD''"
    by (simp_all add: ascii_def)
  have s: "same_modulo_case_and_space ''0xAb Cd'' '' 0XaB cD''"
    by code_simp
  have k: "normalizeAcc (toLowerCase ''0xAb Cd'') = ''0XABCD''"
    by code_simp
  show ?thesis
    using normalization_idempotent_same_key [OF a b s] a b s k by simp
qed


section \<open>Decimal conversion\<close>

lemma of_char_digit_char: "0 \<le> d \<Longrightarrow> d < 10 \<Longrightarrow> (of_char (digit_char d) :: int) = 48 + d"
  by (simp add: digit_char_def of_char_of)

lemma digit_value_digit_char: "0 \<le> d \<Longrightarrow> d < 10 \<Longrightarrow> digit_value (digit_char d) = Some d"
  by (simp add: digit_value_def of_char_digit_char)

lemma is_digit_digit_char: "0 \<le> d \<Longrightarrow> d < 10 \<Longrightarrow> is_digit (digit_char d)"
  by (simp add: is_digit_def of_char_digit_char)

lemma digits10_is_digit: "0 \<le> n \<Longrightarrow> c \<in> set (digits10 n) \<Longrightarrow> is_digit c"
proof (induction n rule: digits10.induct)
  case (1 n)
  show ?case
  proof (cases "n < 10")
    case True
    with 1 show ?thesis by (simp add: digits10.simps [of n] is_digit_digit_char)
  next
    case False
    with 1 show ?thesis by (auto simp add: digits10.simps [of n] is_digit_digit_char)
  qed
qed

lemma digits10_nonempty: "digits10 n \<noteq> []"
  by (subst digits10.simps) simp

lemma parse_digits_append:
  "parse_digits b acc (xs @ ys) =
     (case parse_digits b acc xs of None \<Rightarrow> None | Some a \<Rightarrow> parse_digits b a ys)"
  by (induction xs arbitrary: acc) (auto split: option.splits)

lemma parse_digits10:
  "0 \<le> n \<Longrightarrow> parse_digits 10 acc (digits10 n) = Some (acc * 10 ^ length (digits10 n) + n)"
proof (induction n arbitrary: acc rule: digits10.induct)
  case (1 n)
  show ?case
  proof (cases "n < 10")
    case True
    with 1 show ?thesis by (simp add: digits10.simps [of n] digit_value_digit_char)
  next
    case False
    with 1 have "parse_digits 10 acc (digits10 (n div 10)) =
        Some (acc * 10 ^ length (digits10 (n div 10)) + n div 10)"
      by simp
    with False 1 show ?thesis
      by (simp add: digits10.simps [of n] parse_digits_append digit_value_digit_char algebra_simps)
  qed
qed

lemma parse_digits_zeros: "parse_digits 10 acc (replicate k (CHR ''0'')) = Some (acc * 10 ^ k)"
  by (induction k arbitrary: acc) (auto simp: digit_value_def)

lemma dropWhile_none: "\<forall>c \<in> set s. \<not> P c \<Longrightarrow> dropWhile P s = s"
  by (cases s) auto

lemma trim_no_space: "\<forall>c \<in> set s. \<not> is_space c \<Longrightarrow> trim s = s"
  by (simp add: trim_def dropWhile_none)

lemma split_on_no_sep: "c \<notin> set s \<Longrightarrow> split_on c s = [s]"
  by (induction s) auto

lemma split_on_sep: "c \<notin> set u \<Longrightarrow> split_on c (u @ c # w) = u # split_on c w"
  by (induction u) auto

lemma is_digit_not_space: "is_digit c \<Longrightarrow> \<not> is_space c"
  by (auto simp: is_digit_def is_space_def)

lemma is_digit_neq:
  "is_digit c \<Longrightarrow> c \<noteq> CHR ''.'' \<and> c \<noteq> CHR ''-'' \<and> c \<noteq> CHR ''+'' \<and> c \<noteq> CHR ''x'' \<and> c \<noteq> CHR ''X''
     \<and> c \<noteq> CHR ''o'' \<and> c \<noteq> CHR ''O'' \<and> c \<noteq> CHR ''b'' \<and> c \<noteq> CHR ''B''"
  by (auto simp: is_digit_def)

lemma BigInt_string_digits:
  assumes "\<forall>c \<in> set m. is_digit c" "m \<noteq> []" "parse_digits 10 0 m = Some n"
  shows "BigInt_string m = Inr n" "BigInt_string (CHR ''-'' # m) = Inr (- n)"
proof -
  have nsp: "\<forall>c \<in> set m. \<not> is_space c"
    using assms(1) is_digit_not_space by blast
  have t1: "trim m = m"
    using nsp by (rule trim_no_space)
  have "\<not> is_space (CHR ''-'')"
    by (simp add: is_space_def)
  with nsp have t2: "trim (CHR ''-'' # m) = CHR ''-'' # m"
    by (intro trim_no_space) simp
  obtain c cs where m: "m = c # cs"
    using assms(2) by (cases m) auto
  have c: "is_digit c" and cs: "\<forall>c \<in> set cs. is_digit c"
    using assms(1) m by auto
  have pre: "take 2 m \<notin> {''0x'', ''0X'', ''0o'', ''0O'', ''0b'', ''0B''}"
  proof (cases cs)
    case Nil
    then show ?thesis using m by simp
  next
    case (Cons c' cs')
    then have "is_digit c'" using cs by simp
    then show ?thesis using m Cons is_digit_neq [of c'] by auto
  qed
  have hd: "hd m \<noteq> CHR ''-''" "hd m \<noteq> CHR ''+''"
    using m c is_digit_neq [of c] by auto
  show "BigInt_string m = Inr n"
    using pre hd assms(2,3) t1 by (simp add: BigInt_string_def StringToBigInt_def parse_nat_def Let_def)
  have pre2: "take 2 (CHR ''-'' # m) \<notin> {''0x'', ''0X'', ''0o'', ''0O'', ''0b'', ''0B''}"
    by (simp add: m)
  show "BigInt_string (CHR ''-'' # m) = Inr (- n)"
    using pre2 assms(2,3) t2 by (simp add: BigInt_string_def StringToBigInt_def parse_nat_def Let_def)
qed

lemma fixed_digits_props:
  assumes "0 \<le> n"
  shows "\<forall>c \<in> set (fixed_digits n f). is_digit c"
    and "fixed_digits n f \<noteq> []"
    and "parse_digits 10 0 (fixed_digits n f) = Some n"
    and "f \<noteq> 0 \<Longrightarrow> f < length (fixed_digits n f)"
proof -
  have z: "is_digit (CHR ''0'')" by (simp add: is_digit_def)
  show "\<forall>c \<in> set (fixed_digits n f). is_digit c"
    using digits10_is_digit [OF assms] z by (auto simp: fixed_digits_def Let_def)
  show "fixed_digits n f \<noteq> []"
    by (simp add: fixed_digits_def Let_def digits10_nonempty)
  show "parse_digits 10 0 (fixed_digits n f) = Some n"
    using parse_digits10 [OF assms]
    by (simp add: fixed_digits_def Let_def parse_digits_append parse_digits_zeros)
  show "f \<noteq> 0 \<Longrightarrow> f < length (fixed_digits n f)"
    by (auto simp: fixed_digits_def Let_def)
qed

lemma toFixed_alt:
  "toFixed x f =
     (let s = (if x < 0 then ''-'' else ''''); m = fixed_digits (nearest_fixed x f) f
      in if f = 0 then s @ m else s @ take (length m - f) m @ ''.'' @ drop (length m - f) m)"
  by (simp add: toFixed_def fixed_digits_def Let_def)

lemma parse_fixed:
  fixes n :: int and f :: nat and sg :: string
  assumes "0 \<le> n" "sg \<in> {'''', ''-''}"
  defines "m \<equiv> fixed_digits n f"
  defines "str \<equiv> (if f = 0 then sg @ m else sg @ take (length m - f) m @ ''.'' @ drop (length m - f) m)"
  shows "(let parts = split_on (CHR ''.'') str; whole = hd parts;
              fraction = (if 2 \<le> length parts then parts ! 1 else '''')
          in whole @ padEnd fraction f (CHR ''0'')) = sg @ m"
proof -
  have dig: "\<forall>c \<in> set m. is_digit c" and len: "f \<noteq> 0 \<Longrightarrow> f < length m"
    using fixed_digits_props [OF assms(1), of f] by (auto simp: m_def)
  have nodot_m: "CHR ''.'' \<notin> set m"
    using dig is_digit_neq by blast
  have nodot_sg: "CHR ''.'' \<notin> set sg"
    using assms(2) by auto
  show ?thesis
  proof (cases "f = 0")
    case True
    then have "split_on (CHR ''.'') str = [sg @ m]"
      using nodot_m nodot_sg by (simp add: str_def split_on_no_sep)
    then show ?thesis using True by (simp add: padEnd_def)
  next
    case False
    let ?a = "sg @ take (length m - f) m" and ?b = "drop (length m - f) m"
    have a: "CHR ''.'' \<notin> set ?a"
      using nodot_m nodot_sg by (auto dest: in_set_takeD)
    have b: "CHR ''.'' \<notin> set ?b"
      using nodot_m by (auto dest: in_set_dropD)
    have "str = ?a @ CHR ''.'' # ?b"
      using False by (simp add: str_def)
    then have "split_on (CHR ''.'') str = [?a, ?b]"
      using split_on_sep [OF a, of ?b] split_on_no_sep [OF b] by simp
    moreover have "length ?b = f"
      using len [OF False] by simp
    ultimately show ?thesis
      by (simp add: padEnd_def)
  qed
qed

lemma parseTokenAmount_exact:
  assumes "d \<le> 100" "\<bar>of_int v / 10 ^ d :: rat\<bar> < 10 ^ 21"
  shows "parseTokenAmount (of_int v / 10 ^ d) d = Inr v"
proof -
  let ?x = "of_int v / 10 ^ d :: rat"
  have abs: "\<bar>?x\<bar> * 10 ^ d = of_int \<bar>v\<bar>"
    by (simp add: abs_mult [symmetric])
  have n: "nearest_fixed ?x d = \<bar>v\<bar>"
    unfolding nearest_fixed_def abs by linarith
  have neg: "?x < 0 \<longleftrightarrow> v < 0"
    by (simp add: divide_less_0_iff)
  define sg where "sg = (if v < 0 then ''-'' else '''')"
  define m where "m = fixed_digits \<bar>v\<bar> d"
  have sg: "sg \<in> {'''', ''-''}" by (simp add: sg_def)
  have tf: "toFixed ?x d = (if d = 0 then sg @ m else sg @ take (length m - d) m @ ''.'' @ drop (length m - d) m)"
    unfolding toFixed_alt n Let_def neg sg_def m_def by simp
  have joined: "(let parts = split_on (CHR ''.'') (toFixed ?x d); whole = hd parts;
              fraction = (if 2 \<le> length parts then parts ! 1 else '''')
          in whole @ padEnd fraction d (CHR ''0'')) = sg @ m"
    unfolding tf m_def using parse_fixed [of "\<bar>v\<bar>" sg d] sg by simp
  have props: "\<forall>c \<in> set m. is_digit c" "m \<noteq> []" "parse_digits 10 0 m = Some \<bar>v\<bar>"
    using fixed_digits_props [of "\<bar>v\<bar>" d] by (auto simp: m_def)
  have "BigInt_string (sg @ m) = Inr v"
    using BigInt_string_digits [OF props] by (auto simp: sg_def)
  moreover have "parseTokenAmount ?x d = BigInt_string (sg @ m)"
    using assms joined by (simp add: parseTokenAmount_def Let_def)
  ultimately show ?thesis by simp
qed

text \<open>
  Claim C8. \<open>formatTokenAmount\<close> (decode) maps the raw value 1000000000000000000 at 18
  decimals to 1 and the raw value 100000000 at 6 decimals to 100. The round trip through
  \<open>parseTokenAmount\<close> (encode) returns the raw value \<open>v\<close> whenever the decoded number is
  exactly \<open>v / 10 ^ d\<close>, the number of decimals is at most 100 (the range of
  \<open>toFixed\<close>) and the decoded number is below \<open>10 ^ 21\<close> in magnitude (from there on
  \<open>toFixed\<close> answers in exponent notation).
\<close>

theorem decimal_conversion_roundtrip:
  "formatTokenAmount (AmountString ''1000000000000000000'') 18 = Inr 1
   \<and> formatTokenAmount (AmountString ''100000000'') 6 = Inr 100
   \<and> (\<forall>a v d. raw_value a = Inr v \<and> formatTokenAmount a d = Inr (of_int v / 10 ^ d)
          \<and> d \<le> 100 \<and> \<bar>of_int v / 10 ^ d :: rat\<bar> < 10 ^ 21
        \<longrightarrow> roundtrip a d = Inr v)"
proof -
  have 1: "formatTokenAmount (AmountString ''1000000000000000000'') 18 = Inr 1"
    by code_simp
  have 2: "formatTokenAmount (AmountString ''100000000'') 6 = Inr 100"
    by code_simp
  have 3: "roundtrip a d = Inr v"
    if "formatTokenAmount a d = Inr (of_int v / 10 ^ d)" "d \<le> 100"
      "\<bar>of_int v / 10 ^ d :: rat\<bar> < 10 ^ 21" for a v d
    using that parseTokenAmount_exact [of d v] by (simp add: roundtrip_def)
  from 1 2 3 show ?thesis by blast
qed

theorem decimal_conversion_roundtrip_witness:
  "raw_value (AmountBigInt 1500000000000000000) = Inr 1500000000000000000
   \<and> formatTokenAmount (AmountBigInt 1500000000000000000) 18
        = Inr (of_int 1500000000000000000 / 10 ^ 18)
   \<and> (18 :: nat) \<le> 100 \<and> \<bar>of_int 1500000000000000000 / 10 ^ 18 :: rat\<bar> < 10 ^ 21
   \<and> roundtrip (AmountBigInt 1500000000000000000) 18 = Inr 1500000000000000000"
proof -
  have r: "raw_value (AmountBigInt 1500000000000000000) = Inr 1500000000000000000"
    by (simp add: raw_value_def)
  have f: "formatTokenAmount (AmountBigInt 1500000000000000000) 18
        = Inr (of_int 1500000000000000000 / 10 ^ 18)"
    by code_simp
  have b: "\<bar>of_int 1500000000000000000 / 10 ^ 18 :: rat\<bar> < 10 ^ 21"
    by simp
  have "roundtrip (AmountBigInt 1500000000000000000) 18 = Inr 1500000000000000000"
    using decimal_conversion_roundtrip [THEN conjunct2, THEN conjunct2, rule_format,
        of "AmountBigInt 1500000000000000000" 1500000000000000000 18] r f b
    by simp
  with r f b show ?thesis by simp
qed

text \<open>
  The round trip fails where the claim places no bound: the raw value \<open>10 ^ 21\<close> at 0
  decimals is an exact double and decodes exactly, and encoding it raises.
\<close>

theorem decimal_conversion_roundtrip_counterexample:
  "raw_value (AmountString ''1000000000000000000000'') = Inr (10 ^ 21)
   \<and> formatTokenAmount (AmountString ''1000000000000000000000'') 0 = Inr (of_int (10 ^ 21) / 10 ^ 0)
   \<and> roundtrip (AmountString ''1000000000000000000000'') 0
        = Inl (SyntaxError ''Cannot convert exponent notation to a BigInt'')"
  by code_simp

section \<open>Fetching transfers\<close>

lemma sublist_NTF_self: "sublist ''No transactions found'' ''No transactions found''"
  by simp

text \<open>
  Claim C7. For a response whose status is the failure status \<open>"0"\<close>: with the message
  \<open>No transactions found\<close> the fetch is no error and yields the response's result when that
  is an array (the explorer sends the empty one) and the empty list otherwise; with any other
  message the fetch raises \<open>Etherscan API error\<close> to the caller, unless the error text (the
  message, or the result when the message is empty) contains \<open>No transactions found\<close>:
  then the fetch yields the empty list too.
\<close>

theorem getTokenTransfers_failure_status:
  assumes "net (tokentx_query c address contractAddress startBlock endBlock page offset)
             = Response \<lparr>resp_ok = True, resp_statusText = st, resp_body = JsonObject data\<rparr>"
    and "d_status data = Some ''0''"
  shows "getTokenTransfers c net address contractAddress startBlock endBlock page offset =
     (if d_message data = Some ''No transactions found''
      then Inr (case d_result data of RArray xs \<Rightarrow> xs | _ \<Rightarrow> [])
      else if sublist ''No transactions found'' (''Etherscan API error: '' @ message_or_result data)
      then Inr []
      else Inl (Error (''Etherscan API error: '' @ message_or_result data)))"
  using assms
  by (simp add: getTokenTransfers_def request_def tokentx_query_def error_message_def)

theorem getTokenTransfers_failure_status_witness:
  "getTokenTransfers \<lparr>apiUrl = ''https://api.etherscan.io/v2/api'', apiKey = Some ''k'', chainId = 100\<rparr>
     (responding \<lparr>resp_ok = True, resp_statusText = ''OK'',
        resp_body = JsonObject \<lparr>d_status = Some ''0'', d_message = Some ''No transactions found'',
          d_result = RArray []\<rparr>\<rparr>)
     ''0x6fDF'' (Some ''0x420C'') None None 1 10000 = Inr []
   \<and> getTokenTransfers \<lparr>apiUrl = ''https://api.etherscan.io/v2/api'', apiKey = Some ''k'', chainId = 100\<rparr>
     (responding \<lparr>resp_ok = True, resp_statusText = ''OK'',
        resp_body = JsonObject \<lparr>d_status = Some ''0'', d_message = Some ''NOTOK'',
          d_result = RString ''Max rate limit reached''\<rparr>\<rparr>)
     ''0x6fDF'' (Some ''0x420C'') None None 1 10000 = Inl (Error ''Etherscan API error: NOTOK'')"
proof -
  let ?c = "\<lparr>apiUrl = ''https://api.etherscan.io/v2/api'', apiKey = Some ''k'', chainId = 100\<rparr>"
  let ?d1 = "\<lparr>d_status = Some ''0'', d_message = Some ''No transactions found'', d_result = RArray []\<rparr>"
  let ?d2 = "\<lparr>d_status = Some ''0'', d_message = Some ''NOTOK'',
               d_result = RString ''Max rate limit reached''\<rparr>"
  have n: "\<not> sublist ''No transactions found'' ''Etherscan API error: NOTOK''"
    by code_simp
  have 1: "getTokenTransfers ?c
     (responding \<lparr>resp_ok = True, resp_statusText = ''OK'', resp_body = JsonObject ?d1\<rparr>)
     ''0x6fDF'' (Some ''0x420C'') None None 1 10000 = Inr []"
    using getTokenTransfers_failure_status [of
        "responding \<lparr>resp_ok = True, resp_statusText = ''OK'', resp_body = JsonObject ?d1\<rparr>"
        ?c "''0x6fDF''" "Some ''0x420C''" None None 1 10000 "''OK''" ?d1]
    by (simp add: responding_def)
  have 2: "getTokenTransfers ?c
     (responding \<lparr>resp_ok = True, resp_statusText = ''OK'', resp_body = JsonObject ?d2\<rparr>)
     ''0x6fDF'' (Some ''0x420C'') None None 1 10000 = Inl (Error ''Etherscan API error: NOTOK'')"
    using getTokenTransfers_failure_status [of
        "responding \<lparr>resp_ok = True, resp_statusText = ''OK'', resp_body = JsonObject ?d2\<rparr>"
        ?c "''0x6fDF''" "Some ''0x420C''" None None 1 10000 "''OK''" ?d2] n
    by (simp add: message_or_result_def responding_def)
  from 1 2 show ?thesis by simp
qed

text \<open>
  A failure-status response with another message than \<open>No transactions found\<close> that is no
  error: the message contains the phrase, so the error \<open>request\<close> raises is caught.
\<close>

theorem getTokenTransfers_failure_status_counterexample:
  "getTokenTransfers \<lparr>apiUrl = ''https://api.etherscan.io/v2/api'', apiKey = Some ''k'', chainId = 100\<rparr>
     (responding \<lparr>resp_ok = True, resp_statusText = ''OK'',
        resp_body = JsonObject \<lparr>d_status = Some ''0'',
          d_message = Some ''No transactions found for this key'',
          d_result = RString ''Invalid API Key''\<rparr>\<rparr>)
     ''0x6fDF'' (Some ''0x420C'') None None 1 10000 = Inr []"
  by code_simp

section \<open>Composition rules\<close>

lemma ensuresD: "ensures R f \<Longrightarrow> f w = (r, w') \<Longrightarrow> R w w'"
  by (auto simp: ensures_def dest: spec [of _ w])

lemma ensures_returnE: "preorder_on_worlds R \<Longrightarrow> ensures R (returnE x)"
  by (simp add: ensures_def returnE_def preorder_on_worlds_def)

lemma ensures_throwE: "preorder_on_worlds R \<Longrightarrow> ensures R (throwE e)"
  by (simp add: ensures_def throwE_def preorder_on_worlds_def)

lemma ensures_thenE:
  assumes "preorder_on_worlds R" "ensures R f" "\<And>x. ensures R (g x)"
  shows "ensures R (thenE f g)"
proof -
  have "R w (snd (thenE f g w))" for w
  proof (cases "f w")
    case (Pair r w1)
    have 1: "R w w1" using assms(2) Pair by (rule ensuresD)
    show ?thesis
    proof (cases r)
      case (Inl e)
      then show ?thesis using Pair 1 by (simp add: thenE_def)
    next
      case (Inr x)
      have "R w1 (snd (g x w1))" using assms(3) by (simp add: ensures_def)
      with 1 assms(1) have "R w (snd (g x w1))"
        unfolding preorder_on_worlds_def by blast
      then show ?thesis using Pair Inr by (simp add: thenE_def)
    qed
  qed
  then show ?thesis by (simp add: ensures_def)
qed

lemma ensures_catchE:
  assumes "preorder_on_worlds R" "ensures R f" "\<And>e. ensures R (h e)"
  shows "ensures R (catchE f h)"
proof -
  have "R w (snd (catchE f h w))" for w
  proof (cases "f w")
    case (Pair r w1)
    have 1: "R w w1" using assms(2) Pair by (rule ensuresD)
    show ?thesis
    proof (cases r)
      case (Inr x)
      then show ?thesis using Pair 1 by (simp add: catchE_def)
    next
      case (Inl e)
      have "R w1 (snd (h e w1))" using assms(3) by (simp add: ensures_def)
      with 1 assms(1) have "R w (snd (h e w1))"
        unfolding preorder_on_worlds_def by blast
      then show ?thesis using Pair Inl by (simp add: catchE_def)
    qed
  qed
  then show ?thesis by (simp add: ensures_def)
qed

lemma ensures_logE:
  assumes "\<And>w. R w (w\<lparr>console := console w @ [l]\<rparr>)"
  shows "ensures R (logE l)"
  using assms by (simp add: ensures_def logE_def)

lemma ensures_callRPC:
  assumes "preorder_on_worlds R"
    and "\<And>w. R w (w\<lparr>calls := calls w @ [req]\<rparr>)"
    and "\<And>w. R w (snd (answer w))"
  shows "ensures R (callRPC req answer)"
proof -
  have "R w (snd (callRPC req answer w))" for w
  proof -
    let ?w1 = "w\<lparr>calls := calls w @ [req]\<rparr>"
    have "R w ?w1" by (rule assms(2))
    moreover have "R ?w1 (snd (answer ?w1))" by (rule assms(3))
    ultimately have "R w (snd (answer ?w1))"
      using assms(1) unfolding preorder_on_worlds_def by blast
    with \<open>R w ?w1\<close> show ?thesis
      by (auto simp: callRPC_def Let_def split: prod.splits)
  qed
  then show ?thesis by (simp add: ensures_def)
qed

lemma ensures_if:
  "(b \<Longrightarrow> ensures R f) \<Longrightarrow> (\<not> b \<Longrightarrow> ensures R g) \<Longrightarrow> ensures R (if b then f else g)"
  by simp

lemma ensures_case_list:
  "ensures R f \<Longrightarrow> (\<And>x xs'. xs = x # xs' \<Longrightarrow> ensures R (g x xs'))
     \<Longrightarrow> ensures R (case xs of [] \<Rightarrow> f | x # xs' \<Rightarrow> g x xs')"
  by (cases xs) simp_all

lemma ensures_case_option:
  "ensures R f \<Longrightarrow> (\<And>x. y = Some x \<Longrightarrow> ensures R (g x))
     \<Longrightarrow> ensures R (case y of None \<Rightarrow> f | Some x \<Rightarrow> g x)"
  by (cases y) simp_all

lemma ensures_Let: "ensures R (f x) \<Longrightarrow> ensures R (Let x f)"
  by simp

section \<open>Dry run\<close>

lemma only_reads_preorder: "preorder_on_worlds only_reads"
  unfolding preorder_on_worlds_def only_reads_def
  by (auto simp: ball_Un)

lemma only_reads_log: "only_reads w (w\<lparr>console := console w @ [l]\<rparr>)"
  by (simp add: only_reads_def ledger_tables_def)

lemma only_reads_call: "\<not> is_write_call req \<Longrightarrow> only_reads w (w\<lparr>calls := calls w @ [req]\<rparr>)"
  by (simp add: only_reads_def ledger_tables_def)

lemma only_reads_refl: "only_reads w w"
  by (simp add: only_reads_def)

lemmas only_reads_intros =
  ensures_thenE [OF only_reads_preorder] ensures_catchE [OF only_reads_preorder]
  ensures_returnE [OF only_reads_preorder] ensures_throwE [OF only_reads_preorder]
  ensures_logE [of only_reads, OF only_reads_log]
  ensures_if ensures_case_list ensures_case_option

lemma only_reads_read_call:
  assumes "\<not> is_write_call req" "\<And>w. snd (answer w) = w"
  shows "ensures only_reads (callRPC req answer)"
proof (rule ensures_callRPC [OF only_reads_preorder])
  show "only_reads w (w\<lparr>calls := calls w @ [req]\<rparr>)" for w
    using assms(1) by (rule only_reads_call)
  show "only_reads w (snd (answer w))" for w
    by (simp add: assms(2) only_reads_refl)
qed

lemma only_reads_getPartnerIdByName: "ensures only_reads (getPartnerIdByName c name)"
  unfolding getPartnerIdByName_def
  by (intro only_reads_intros only_reads_read_call) (simp_all add: srv_partner_search_read_name_def)

lemma only_reads_findBankAccountByIdentifier:
  "ensures only_reads (findBankAccountByIdentifier c b)"
  unfolding findBankAccountByIdentifier_def
  by (intro only_reads_intros only_reads_read_call) (simp_all add: srv_bank_search_read_acc_def)

lemma only_reads_createPartner:
  "dryRun c \<Longrightarrow> ensures only_reads (createPartner c name address r p)"
  unfolding createPartner_def
  by (simp add: only_reads_intros)

lemma only_reads_createBankAccount:
  "dryRun c \<Longrightarrow> ensures only_reads (createBankAccount c iban pid an)"
  unfolding createBankAccount_def
  by (simp add: only_reads_intros)

lemma only_reads_findOrCreatePartnerByName:
  "ensures only_reads (findOrCreatePartnerByName c name True r p)"
  unfolding findOrCreatePartnerByName_def if_True
  by (intro only_reads_intros only_reads_getPartnerIdByName)

lemma only_reads_findOrCreatePartnerBank:
  "ensures only_reads (findOrCreatePartnerBank c pid iban True r p)"
  unfolding findOrCreatePartnerBank_def Let_def if_True
  by (intro only_reads_intros only_reads_findBankAccountByIdentifier)

lemma only_reads_getOrCreateMonthlyStatement:
  "ensures only_reads (getOrCreateMonthlyStatement j mk True)"
  unfolding getOrCreateMonthlyStatement_def Let_def if_True
  by (intro only_reads_intros only_reads_read_call)
     (simp_all add: srv_statement_search_read_name_def)

lemma only_reads_sumStatementLineAmounts: "ensures only_reads (sumStatementLineAmounts sid)"
  unfolding sumStatementLineAmounts_def Let_def
  by (intro only_reads_intros only_reads_read_call)
     (simp_all add: srv_line_search_read_statement_def)

lemma only_reads_closeStatementIfNeeded: "ensures only_reads (closeStatementIfNeeded sid True)"
  unfolding closeStatementIfNeeded_def Let_def if_True
  by (intro only_reads_intros only_reads_read_call only_reads_sumStatementLineAmounts)
     (simp_all add: srv_statement_read_def only_reads_intros)

lemma only_reads_close_past: "ensures only_reads (close_past sts cur True)"
  by (induction sts cur True rule: close_past.induct)
     (auto intro!: only_reads_intros only_reads_closeStatementIfNeeded)

lemma only_reads_closeAllPastMonthlyStatements:
  "ensures only_reads (closeAllPastMonthlyStatements j cur True)"
  unfolding closeAllPastMonthlyStatements_def
  by (intro only_reads_intros only_reads_read_call only_reads_close_past)
     (simp_all add: srv_statement_search_read_journal_def)

lemma only_reads_process_transfer:
  "dryRun c \<Longrightarrow> ensures only_reads (process_transfer c env stId mk item)"
  unfolding process_transfer_def Let_def
  by (auto intro!: only_reads_intros only_reads_read_call only_reads_findOrCreatePartnerBank
      simp: srv_line_search_import_id_def split: sum.splits)

lemma only_reads_process_items:
  "dryRun c \<Longrightarrow> ensures only_reads (process_items c env stId mk items)"
  by (induction items) (auto intro!: only_reads_intros only_reads_process_transfer)

lemma only_reads_process_months:
  "dryRun c \<Longrightarrow> ensures only_reads (process_months c env byMonth)"
  by (induction byMonth)
     (auto intro!: only_reads_intros only_reads_process_items
        only_reads_getOrCreateMonthlyStatement only_reads_closeStatementIfNeeded)

lemma only_reads_main_import:
  "dryRun c \<Longrightarrow> ensures only_reads (main_import c env txs)"
  unfolding main_import_def
  by (auto intro!: only_reads_intros only_reads_process_months
        only_reads_closeAllPastMonthlyStatements split: sum.splits)

text \<open>
  Claim C9. In dry-run mode the whole import leaves the ledger as it was and issues no
  remote write (no create, no write, no post); the creating operations answer with fixed
  synthetic identifiers: 999999 for a partner and for a journal entry, 888888 for a bank
  account, 777777 for a statement period that the search does not find. The grouping, the
  duplicate search and the close decisions are still evaluated, against the unchanged
  ledger.
\<close>

theorem dry_run_issues_no_write:
  assumes "dryRun c" and "main_import c env txs w = (r, w')"
  shows "ledger_tables w' = ledger_tables w
    \<and> (\<forall>call \<in> set (drop (length (calls w)) (calls w')). \<not> is_write_call call)
    \<and> (truthy_id (uid c) \<longrightarrow>
          fst (createPartner c name address receivable payable w) = Inr 999999
        \<and> fst (createBankAccount c iban partnerId accountName w) = Inr 888888
        \<and> fst (createJournalEntry c entry w) = Inr 999999)
    \<and> (length (calls w) \<notin> set (faults w)
         \<and> (\<forall>s \<in> set (statements w). \<not> (st_journal_id s = j \<and> st_name s = ''Feed '' @ mk))
        \<longrightarrow> fst (getOrCreateMonthlyStatement j mk True w) = Inr 777777)"
proof -
  have "only_reads w w'"
    using only_reads_main_import [OF assms(1)] assms(2) by (rule ensuresD)
  then have 1: "ledger_tables w' = ledger_tables w
      \<and> (\<forall>call \<in> set (drop (length (calls w)) (calls w')). \<not> is_write_call call)"
    by (auto simp: only_reads_def)
  have 2: "fst (createPartner c name address receivable payable w) = Inr 999999
        \<and> fst (createBankAccount c iban partnerId accountName w) = Inr 888888
        \<and> fst (createJournalEntry c entry w) = Inr 999999" if "truthy_id (uid c)"
    using that assms(1)
    by (simp add: createPartner_def createBankAccount_def createJournalEntry_def
        thenE_def logE_def returnE_def)
  have 3: "fst (getOrCreateMonthlyStatement j mk True w) = Inr 777777"
    if "length (calls w) \<notin> set (faults w)"
      "\<forall>s \<in> set (statements w). \<not> (st_journal_id s = j \<and> st_name s = ''Feed '' @ mk)"
  proof -
    have "filter (\<lambda>s. st_journal_id s = j \<and> st_name s = ''Feed '' @ mk) (statements w) = []"
      using that(2) by (auto simp: filter_empty_conv)
    then show ?thesis
      using that(1)
      by (simp add: getOrCreateMonthlyStatement_def Let_def thenE_def callRPC_def
          srv_statement_search_read_name_def logE_def returnE_def)
  qed
  from 1 2 3 show ?thesis by blast
qed

theorem dry_run_issues_no_write_witness:
  "dryRun example_dry_client
   \<and> ledger_tables (snd (main_import example_dry_client example_env
        [incoming_transfer, outgoing_transfer] empty_ledger)) = ledger_tables empty_ledger
   \<and> calls (snd (main_import example_dry_client example_env
        [incoming_transfer, outgoing_transfer] empty_ledger)) =
       [StatementSearchReadName 55 ''Feed 2024-09'',
        PartnerBankSearchReadAcc ''0XB0B'', LineSearchImportId ''0xaa'',
        PartnerBankSearchReadAcc ''0XB0B'', LineSearchImportId ''0xbb'',
        StatementRead 777777, StatementSearchReadJournal 55]
   \<and> fst (createPartner example_dry_client ''Unknown'' None (Some 7) (Some 8) empty_ledger)
        = Inr 999999
   \<and> fst (getOrCreateMonthlyStatement 55 ''2024-09'' True empty_ledger) = Inr 777777"
proof -
  let ?run = "main_import example_dry_client example_env
        [incoming_transfer, outgoing_transfer] empty_ledger"
  have d: "dryRun example_dry_client"
    by (simp add: example_dry_client_def)
  have u: "truthy_id (uid example_dry_client)"
    by (simp add: example_dry_client_def truthy_id_def)
  have e: "length (calls empty_ledger) \<notin> set (faults empty_ledger)"
    "\<forall>s \<in> set (statements empty_ledger).
        \<not> (st_journal_id s = 55 \<and> st_name s = ''Feed '' @ ''2024-09'')"
    by (simp_all add: empty_ledger_def)
  have run: "?run = (fst ?run, snd ?run)"
    by simp
  have c: "calls (snd ?run) =
       [StatementSearchReadName 55 ''Feed 2024-09'',
        PartnerBankSearchReadAcc ''0XB0B'', LineSearchImportId ''0xaa'',
        PartnerBankSearchReadAcc ''0XB0B'', LineSearchImportId ''0xbb'',
        StatementRead 777777, StatementSearchReadJournal 55]"
    by code_simp
  note t = dry_run_issues_no_write [OF d run, where name = "''Unknown''"
      and address = None and receivable = "Some 7" and payable = "Some 8"
      and j = 55 and mk = "''2024-09''"]
  from t u e have "ledger_tables (snd ?run) = ledger_tables empty_ledger"
    "fst (createPartner example_dry_client ''Unknown'' None (Some 7) (Some 8) empty_ledger)
        = Inr 999999"
    "fst (getOrCreateMonthlyStatement 55 ''2024-09'' True empty_ledger) = Inr 777777"
    by blast+
  with d c show ?thesis by simp
qed

text \<open>
  The control flow of a dry run is not that of a real run: a real run finds the line it has
  just created and skips the second transfer with the same hash, a dry run creates nothing
  and reports both as lines it would create.
\<close>

theorem dry_run_control_flow_counterexample:
  "console (snd (main_import example_client example_env
       [incoming_transfer, incoming_transfer] empty_ledger)) =
     [LineCreated ''2024-09'' ''0xaa'', SkipDuplicate ''0xaa'',
      ClosedStatement 1 1, ClosedStatement 1 1, ImportDone]
   \<and> console (snd (main_import example_dry_client example_env
       [incoming_transfer, incoming_transfer] empty_ledger)) =
     [DryRunWouldCreateStatement ''Feed 2024-09'' 55,
      DryRunWouldCreateBankAccount ''0XB0B'' 0, DryRunWouldCreateLine ''0xaa'',
      DryRunWouldCreateBankAccount ''0XB0B'' 0, DryRunWouldCreateLine ''0xaa'',
      ImportDone]"
  by code_simp

section \<open>A raised remote call ends the run\<close>
































section \<open>Closing a period\<close>

lemma close_unset:
  assumes rows: "filter (\<lambda>s. st_id s = sid) (statements w) = st # rest"
    and unset: "st_balance_end_real st = None"
    and ok: "length (calls w) \<notin> set (faults w)" "Suc (length (calls w)) \<notin> set (faults w)"
      "Suc (Suc (length (calls w))) \<notin> set (faults w)"
  shows "\<exists>w'. closeStatementIfNeeded sid False w = (Inr (), w')
    \<and> map st_balance_end_real (statements w') =
        map (\<lambda>s. if st_id s = sid
               then Some (js_round2 (js_add
                      (case st_balance_start st of Some b \<Rightarrow> b | None \<Rightarrow> 0)
                      (js_round2 (foldl js_add 0 (limit_rows 100000 (map ln_amount
                         (filter (\<lambda>l. ln_statement_id l = sid) (lines w))))))))
               else st_balance_end_real s) (statements w)"
proof (cases "Suc (Suc (Suc (length (calls w)))) \<in> set (faults w)")
  case True
  then show ?thesis
    using assms
    by (simp add: closeStatementIfNeeded_def sumStatementLineAmounts_def thenE_def catchE_def
        callRPC_def Let_def logE_def returnE_def srv_statement_read_def
        srv_line_search_read_statement_def srv_statement_write_def
        o_def cong: if_cong)
next
  case False
  then show ?thesis
    using assms
    by (simp add: closeStatementIfNeeded_def sumStatementLineAmounts_def thenE_def catchE_def
        callRPC_def Let_def logE_def returnE_def srv_statement_read_def
        srv_line_search_read_statement_def srv_statement_write_def
        srv_statement_button_post_def o_def cong: if_cong)
qed

lemma close_set:
  assumes rows: "filter (\<lambda>s. st_id s = sid) (statements w) = st # rest"
    and set: "st_balance_end_real st = Some e"
  shows "map st_balance_end_real (statements (snd (closeStatementIfNeeded sid dry w)))
           = map st_balance_end_real (statements w)
    \<and> set (drop (length (calls w)) (calls (snd (closeStatementIfNeeded sid dry w))))
         \<subseteq> {StatementRead sid, StatementButtonPost sid}"
proof -
  have "map (st_balance_end_real \<circ> (\<lambda>s. if st_id s = sid then s\<lparr>st_posted := True\<rparr> else s)) xs
      = map st_balance_end_real xs" for xs :: "statement_rec list"
    by (induction xs) auto
  then show ?thesis
    using assms
    by (auto simp: closeStatementIfNeeded_def thenE_def catchE_def
        callRPC_def Let_def logE_def returnE_def srv_statement_read_def
        srv_statement_button_post_def)
qed

text \<open>
  Claim C3. The close procedure runs on a period \<open>st\<close> that exists. If its closing balance is
  unset, the run is not a dry run, and neither reading the period, nor reading its lines, nor
  writing the balance raises, then the procedure returns and the balance it has persisted is
  the opening balance (0 when unset) plus the sum of the amounts of the period's first
  100000 lines, where the sum is rounded to two decimals before the opening balance is added
  and the total is rounded to two decimals again; every addition is one of doubles, from left
  to right. No other period's closing balance changes. If the closing balance is set, it is
  not recomputed: no closing balance changes and the procedure issues no remote call besides
  reading the period and posting it.
\<close>

theorem close_recomputes_unset_balance:
  assumes "filter (\<lambda>s. st_id s = sid) (statements w) = st # rest"
  shows "(st_balance_end_real st = None \<and> \<not> dry
          \<and> length (calls w) \<notin> set (faults w) \<and> Suc (length (calls w)) \<notin> set (faults w)
          \<and> Suc (Suc (length (calls w))) \<notin> set (faults w)
        \<longrightarrow> (\<exists>w'. closeStatementIfNeeded sid dry w = (Inr (), w')
              \<and> map st_balance_end_real (statements w') =
                  map (\<lambda>s. if st_id s = sid
                         then Some (js_round2 (js_add
                                (case st_balance_start st of Some b \<Rightarrow> b | None \<Rightarrow> 0)
                                (js_round2 (foldl js_add 0 (limit_rows 100000 (map ln_amount
                                   (filter (\<lambda>l. ln_statement_id l = sid) (lines w))))))))
                         else st_balance_end_real s) (statements w)))
    \<and> (st_balance_end_real st \<noteq> None
        \<longrightarrow> map st_balance_end_real (statements (snd (closeStatementIfNeeded sid dry w)))
              = map st_balance_end_real (statements w)
            \<and> set (drop (length (calls w)) (calls (snd (closeStatementIfNeeded sid dry w))))
                \<subseteq> {StatementRead sid, StatementButtonPost sid})"
  using close_unset [OF assms] close_set [OF assms] by auto

theorem close_recomputes_unset_balance_witness:
  "map st_balance_end_real (statements (ledger_with_period None None [1, 5 / 2])) = [None]
   \<and> fst (closeStatementIfNeeded 40 False (ledger_with_period None None [1, 5 / 2])) = Inr ()
   \<and> map st_balance_end_real
        (statements (snd (closeStatementIfNeeded 40 False
           (ledger_with_period None None [1, 5 / 2])))) = [Some (7 / 2)]
   \<and> map st_balance_end_real
        (statements (snd (closeStatementIfNeeded 40 False
           (ledger_with_period None (Some 7) [1, 5 / 2])))) = [Some 7]"
proof -
  let ?w = "ledger_with_period None None [1, 5 / 2]"
  let ?v = "ledger_with_period None (Some 7) [1, 5 / 2]"
  let ?st = "\<lambda>e. \<lparr>st_id = 40, st_journal_id = 55, st_name = ''Feed 2024-09'',
      st_date = ''2024-09-01'', st_balance_start = None, st_balance_end_real = e,
      st_posted = False\<rparr>"
  have rows: "filter (\<lambda>s. st_id s = 40) (statements ?w) = ?st None # []"
    and rows': "filter (\<lambda>s. st_id s = 40) (statements ?v) = ?st (Some 7) # []"
    by (simp_all add: ledger_with_period_def)
  have total: "js_round2 (js_add 0 (js_round2 (foldl js_add 0 (limit_rows 100000 [1, 5 / 2]))))
      = 7 / 2"
    by code_simp
  from close_recomputes_unset_balance [OF rows, of False]
  obtain w' where w': "closeStatementIfNeeded 40 False ?w = (Inr (), w')"
    "map st_balance_end_real (statements w')
       = [Some (js_round2 (js_add 0 (js_round2 (foldl js_add 0 (limit_rows 100000 [1, 5 / 2])))))]"
    by (auto simp: ledger_with_period_def)
  have "map st_balance_end_real (statements w') = [Some (7 / 2)]"
    using w'(2) unfolding total .
  with w'(1) have "fst (closeStatementIfNeeded 40 False ?w) = Inr ()
      \<and> map st_balance_end_real (statements (snd (closeStatementIfNeeded 40 False ?w)))
          = [Some (7 / 2)]"
    by simp
  moreover have "map st_balance_end_real (statements (snd (closeStatementIfNeeded 40 False ?v)))
      = [Some 7]"
    using close_recomputes_unset_balance [OF rows', of False]
    by (simp add: ledger_with_period_def)
  moreover have "map st_balance_end_real (statements ?w) = [None]"
    by (simp add: ledger_with_period_def)
  ultimately show ?thesis
    by simp
qed

text \<open>
  Two runs of the close procedure on a period with an unset closing balance. A dry run
  persists nothing. With the opening balance 1/256 and one line of 1/256, the sum is
  rounded to 0 before the opening balance is added, and the balance persisted is 0, while
  the opening balance plus the sum of the amounts, rounded to two decimals, is the double
  nearest to 0.01.
\<close>

theorem closing_balance_counterexample:
  "map st_balance_end_real
      (statements (snd (closeStatementIfNeeded 40 True (ledger_with_period None None [1, 5 / 2]))))
     = [None]
   \<and> map st_balance_end_real
      (statements (snd (closeStatementIfNeeded 40 False
         (ledger_with_period (Some (1 / 256)) None [1 / 256]))))
     = [Some 0]
   \<and> js_round2 (js_add (1 / 256) (foldl js_add 0 [1 / 256]))
     = 5764607523034235 / 576460752303423488"
  by code_simp

section \<open>The amount of a line\<close>

text \<open>
  Claim C2. The amount of a line is \<open>formatUnits(BigInt(r.value), 18)\<close>: the raw value over
  \<open>10 ^ 18\<close>, whatever the token's decimals and whichever side of the transfer the tracked
  wallet is on. The import of the outgoing transfer (2500000000000000000 raw units sent by
  the tracked wallet) writes one line, and its amount is +2.5.
\<close>

theorem outgoing_transfer_amount_is_positive:
  "tx_from outgoing_transfer = walletAddress example_env
   \<and> fst (main_import example_client example_env [outgoing_transfer] empty_ledger) = Inr ()
   \<and> map ln_amount
        (lines (snd (main_import example_client example_env [outgoing_transfer] empty_ledger)))
     = [5 / 2]"
  by code_simp

section \<open>One line for each transaction hash\<close>

lemma same_lines_preorder: "preorder_on_worlds same_lines"
  by (simp add: preorder_on_worlds_def same_lines_def)

lemmas same_lines_intros =
  ensures_thenE [OF same_lines_preorder] ensures_catchE [OF same_lines_preorder]
  ensures_returnE [OF same_lines_preorder] ensures_throwE [OF same_lines_preorder]
  ensures_if ensures_case_list ensures_case_option

lemma same_lines_logE: "ensures same_lines (logE l)"
  by (simp add: ensures_def logE_def same_lines_def)

lemma same_lines_callRPC:
  assumes "\<And>w. lines (snd (answer w)) = lines w"
  shows "ensures same_lines (callRPC req answer)"
  by (rule ensures_callRPC [OF same_lines_preorder]) (simp_all add: same_lines_def assms)

lemma same_lines_getPartnerIdByName: "ensures same_lines (getPartnerIdByName c name)"
  unfolding getPartnerIdByName_def
  by (intro same_lines_intros same_lines_callRPC) (simp add: srv_partner_search_read_name_def)

lemma same_lines_findBankAccountByIdentifier:
  "ensures same_lines (findBankAccountByIdentifier c b)"
  unfolding findBankAccountByIdentifier_def
  by (intro same_lines_intros same_lines_callRPC) (simp add: srv_bank_search_read_acc_def)

lemma same_lines_createPartner: "ensures same_lines (createPartner c name address r p)"
  unfolding createPartner_def Let_def
  by (intro same_lines_intros same_lines_callRPC same_lines_logE)
     (simp add: srv_partner_create_def)

lemma same_lines_createBankAccount: "ensures same_lines (createBankAccount c iban pid an)"
  unfolding createBankAccount_def Let_def
  by (intro same_lines_intros same_lines_callRPC same_lines_logE)
     (simp add: srv_bank_create_def)

lemma same_lines_findOrCreatePartnerByName:
  "ensures same_lines (findOrCreatePartnerByName c name dry r p)"
  unfolding findOrCreatePartnerByName_def
  by (intro same_lines_intros same_lines_logE same_lines_getPartnerIdByName
      same_lines_createPartner)

lemma same_lines_findOrCreatePartnerBank:
  "ensures same_lines (findOrCreatePartnerBank c pid iban dry r p)"
  unfolding findOrCreatePartnerBank_def Let_def
  by (intro same_lines_intros same_lines_logE same_lines_findBankAccountByIdentifier
      same_lines_findOrCreatePartnerByName same_lines_createBankAccount)

lemma same_lines_ensure_partner_accounts: "ensures same_lines (ensure_partner_accounts b env)"
  unfolding ensure_partner_accounts_def Let_def
  by (intro same_lines_intros same_lines_callRPC)
     (simp_all add: srv_bank_read_def srv_partner_read_def srv_partner_write_def)

lemma same_lines_getOrCreateMonthlyStatement:
  "ensures same_lines (getOrCreateMonthlyStatement j mk dry)"
  unfolding getOrCreateMonthlyStatement_def Let_def
  by (intro same_lines_intros same_lines_callRPC same_lines_logE)
     (simp_all add: srv_statement_search_read_name_def srv_statement_create_def)

lemma same_lines_sumStatementLineAmounts: "ensures same_lines (sumStatementLineAmounts sid)"
  unfolding sumStatementLineAmounts_def Let_def
  by (intro same_lines_intros same_lines_callRPC)
     (simp add: srv_line_search_read_statement_def)

lemma same_lines_closeStatementIfNeeded: "ensures same_lines (closeStatementIfNeeded sid dry)"
  unfolding closeStatementIfNeeded_def Let_def
  by (intro same_lines_intros same_lines_callRPC same_lines_logE
      same_lines_sumStatementLineAmounts)
     (simp_all add: srv_statement_read_def srv_statement_write_def
        srv_statement_button_post_def)

lemma same_lines_close_past: "ensures same_lines (close_past sts cur dry)"
  by (induction sts cur dry rule: close_past.induct)
     (auto intro!: same_lines_intros same_lines_closeStatementIfNeeded)

lemma same_lines_closeAllPastMonthlyStatements:
  "ensures same_lines (closeAllPastMonthlyStatements j cur dry)"
  unfolding closeAllPastMonthlyStatements_def
  by (intro same_lines_intros same_lines_callRPC same_lines_close_past)
     (simp add: srv_statement_search_read_journal_def)

lemma returningD: "returning R f \<Longrightarrow> f w = (Inr y, w') \<Longrightarrow> R w w'"
  unfolding returning_def by blast

lemma returning_thenE:
  assumes "returning R1 f" "\<And>x. returning R2 (g x)" "\<And>a b c. R1 a b \<Longrightarrow> R2 b c \<Longrightarrow> R3 a c"
  shows "returning R3 (thenE f g)"
  unfolding returning_def
proof (intro allI impI)
  fix w y w'
  assume "thenE f g w = (Inr y, w')"
  then obtain x w1 where "f w = (Inr x, w1)" "g x w1 = (Inr y, w')"
    by (auto simp: thenE_def split: prod.splits sum.splits)
  then show "R3 w w'"
    using assms by (meson returningD)
qed

lemma returning_ensures: "ensures R f \<Longrightarrow> returning R f"
  unfolding returning_def by (auto dest: ensuresD)

lemma returning_throwE: "returning R (throwE e)"
  by (simp add: returning_def throwE_def)

lemma returning_returnE: "(\<And>w. R w w) \<Longrightarrow> returning R (returnE x)"
  by (simp add: returning_def returnE_def)

lemma limit_rows_1_empty: "limit_rows 1 xs = [] \<longleftrightarrow> xs = []"
  by (cases xs) auto

lemma imports_exactly_frame: "lines w' = lines w \<Longrightarrow> imports_exactly {} token w w'"
  by (simp add: imports_exactly_def)

lemma imports_exactly_same_lines:
  "lines w1 = lines w \<Longrightarrow> imports_exactly T token w1 w' \<Longrightarrow> imports_exactly T token w w'"
  by (simp add: imports_exactly_def)

lemma imports_exactly_same_lines2:
  "imports_exactly T token w w1 \<Longrightarrow> lines w' = lines w1 \<Longrightarrow> imports_exactly T token w w'"
  by (simp add: imports_exactly_def)

lemma imports_exactly_trans:
  assumes "imports_exactly A token w w1" "imports_exactly B token w1 w2"
  shows "imports_exactly (A \<union> B) token w w2"
proof -
  let ?ids = "map ln_unique_import_id"
  from assms(1) obtain n1 where 1: "lines w1 = lines w @ n1" "distinct (?ids n1)"
    "set (?ids n1) = unique_import_id_of ` A - set (?ids (lines w))"
    "\<forall>l \<in> set n1. \<exists>r \<in> A. ln_unique_import_id l = unique_import_id_of r
        \<and> ln_payment_ref l = dedup_key r token"
    unfolding imports_exactly_def by blast
  from assms(2) obtain n2 where 2: "lines w2 = lines w1 @ n2" "distinct (?ids n2)"
    "set (?ids n2) = unique_import_id_of ` B - set (?ids (lines w1))"
    "\<forall>l \<in> set n2. \<exists>r \<in> B. ln_unique_import_id l = unique_import_id_of r
        \<and> ln_payment_ref l = dedup_key r token"
    unfolding imports_exactly_def by blast
  have a: "lines w2 = lines w @ (n1 @ n2)"
    using 1(1) 2(1) by simp
  have "set (?ids n1) \<inter> set (?ids n2) = {}"
    using 2(3) 1(1) by auto
  then have b: "distinct (?ids (n1 @ n2))"
    using 1(2) 2(2) by simp
  have c: "set (?ids (n1 @ n2)) = unique_import_id_of ` (A \<union> B) - set (?ids (lines w))"
    using 1(1,3) 2(3) by auto
  have d: "\<forall>l \<in> set (n1 @ n2). \<exists>r \<in> A \<union> B. ln_unique_import_id l = unique_import_id_of r
        \<and> ln_payment_ref l = dedup_key r token"
    using 1(4) 2(4) by auto
  show ?thesis
    unfolding imports_exactly_def using a b c d by blast
qed

lemma dedup_step:
  assumes nb: "trim (tx_hash r) \<noteq> ''''"
    and run: "thenE
         (case unique_import_id_of r of
            None \<Rightarrow> returnE False
          | Some u \<Rightarrow>
              thenE (callRPC (LineSearchImportId u) (srv_line_search_import_id u))
                (\<lambda>dup. returnE (dup \<noteq> [])))
         (\<lambda>duplicate.
            if duplicate then logE (SkipDuplicate (tx_hash r))
            else thenE (callRPC (LineCreate payload) (srv_line_create payload))
                   (\<lambda>_. logE (LineCreated mk (tx_hash r)))) w = (Inr (), w')"
    and pl: "pl_unique_import_id payload = unique_import_id_of r"
      "pl_payment_ref payload = dedup_key r token"
  shows "imports_exactly {r} token w w'"
proof -
  let ?u = "trim (tx_hash r)"
  have u: "unique_import_id_of r = Some ?u"
    using nb by (simp add: unique_import_id_of_def)
  show ?thesis
  proof (cases "length (calls w) \<in> set (faults w)")
    case True
    then show ?thesis
      using run u by (simp add: thenE_def callRPC_def Let_def)
  next
    case False
    show ?thesis
    proof (cases "\<exists>l \<in> set (lines w). ln_unique_import_id l = Some ?u")
      case True
      then have ne: "filter (\<lambda>l. ln_unique_import_id l = Some ?u) (lines w) \<noteq> []"
        by (auto simp: filter_empty_conv)
      have "lines w' = lines w"
        using run u False ne
        by (auto simp: thenE_def callRPC_def Let_def srv_line_search_import_id_def returnE_def
            logE_def limit_rows_1_empty)
      moreover have "unique_import_id_of ` {r} - set (map ln_unique_import_id (lines w)) = {}"
        using True by (force simp: u)
      ultimately show ?thesis
        by (simp add: imports_exactly_def)
    next
      case nodup: False
      then have e: "filter (\<lambda>l. ln_unique_import_id l = Some ?u) (lines w) = []"
        by (auto simp: filter_empty_conv)
      have "\<exists>i. lines w' = lines w @
          [\<lparr>ln_id = i, ln_statement_id = pl_statement_id payload, ln_date = pl_date payload,
            ln_payment_ref = pl_payment_ref payload, ln_amount = pl_amount payload,
            ln_name = pl_name payload, ln_unique_import_id = pl_unique_import_id payload\<rparr>]"
        using run u False e
        by (auto simp: thenE_def callRPC_def Let_def srv_line_search_import_id_def returnE_def
            logE_def srv_line_create_def split: if_splits)
      then obtain l where l: "lines w' = lines w @ [l]" "ln_unique_import_id l = Some ?u"
        "ln_payment_ref l = dedup_key r token"
        using pl u by auto
      have "unique_import_id_of ` {r} - set (map ln_unique_import_id (lines w)) = {Some ?u}"
        using nodup by (auto simp: u)
      then show ?thesis
        unfolding imports_exactly_def using l
        by (intro exI [of _ "[l]"]) (simp add: u)
    qed
  qed
qed

lemma dedup_step_returning:
  assumes "trim (tx_hash r) \<noteq> ''''" "pl_unique_import_id payload = unique_import_id_of r"
    "pl_payment_ref payload = dedup_key r token"
  shows "returning (imports_exactly {r} token)
     (thenE
         (case unique_import_id_of r of
            None \<Rightarrow> returnE False
          | Some u \<Rightarrow>
              thenE (callRPC (LineSearchImportId u) (srv_line_search_import_id u))
                (\<lambda>dup. returnE (dup \<noteq> [])))
         (\<lambda>duplicate.
            if duplicate then logE (SkipDuplicate (tx_hash r))
            else thenE (callRPC (LineCreate payload) (srv_line_create payload))
                   (\<lambda>_. logE (LineCreated mk (tx_hash r)))))"
  unfolding returning_def using dedup_step [OF assms(1) _ assms(2,3)] by auto

lemma same_lines_then_imports:
  "same_lines a b \<Longrightarrow> imports_exactly T token b c \<Longrightarrow> imports_exactly T token a c"
  by (simp add: same_lines_def imports_exactly_def)

lemma imports_then_same_lines:
  "imports_exactly T token a b \<Longrightarrow> same_lines b c \<Longrightarrow> imports_exactly T token a c"
  by (simp add: same_lines_def imports_exactly_def)

lemma imports_exactly_refl: "imports_exactly {} token w w"
  by (simp add: imports_exactly_def)

lemma process_transfer_imports:
  assumes "\<not> dryRun c" "trim (tx_hash (fst item)) \<noteq> ''''"
  shows "returning (imports_exactly {fst item} (tokenAddress env))
           (process_transfer c env stId mk item)"
proof (cases "BigInt_string (tx_value (fst item))")
  case (Inl e)
  then show ?thesis
    by (simp add: process_transfer_def returning_throwE)
next
  case (Inr v)
  have *: "returning (imports_exactly {fst item} (tokenAddress env))
     (thenE
        (findOrCreatePartnerBank c 0 address False
           (Some (defaultReceivableAccountId env)) (Some (defaultPayableAccountId env)))
        (\<lambda>partnerBankId.
           thenE (if partnerBankId \<noteq> 0 then ensure_partner_accounts partnerBankId env
                  else returnE ())
             (\<lambda>_. thenE
                (case unique_import_id_of (fst item) of
                   None \<Rightarrow> returnE False
                 | Some u \<Rightarrow>
                     thenE (callRPC (LineSearchImportId u) (srv_line_search_import_id u))
                       (\<lambda>dup. returnE (dup \<noteq> [])))
                (\<lambda>duplicate.
                   if duplicate then logE (SkipDuplicate (tx_hash (fst item)))
                   else thenE (callRPC (LineCreate payload) (srv_line_create payload))
                          (\<lambda>_. logE (LineCreated mk (tx_hash (fst item))))))))"
    if "pl_unique_import_id payload = unique_import_id_of (fst item)"
      "pl_payment_ref payload = dedup_key (fst item) (tokenAddress env)" for payload address
  proof (rule returning_thenE [where ?R1.0 = same_lines, OF _ _ same_lines_then_imports])
    show "returning same_lines (findOrCreatePartnerBank c 0 address False
           (Some (defaultReceivableAccountId env)) (Some (defaultPayableAccountId env)))"
      by (rule returning_ensures [OF same_lines_findOrCreatePartnerBank])
    show "returning (imports_exactly {fst item} (tokenAddress env))
       (thenE (if b \<noteq> 0 then ensure_partner_accounts b env else returnE ())
             (\<lambda>_. thenE
                (case unique_import_id_of (fst item) of
                   None \<Rightarrow> returnE False
                 | Some u \<Rightarrow>
                     thenE (callRPC (LineSearchImportId u) (srv_line_search_import_id u))
                       (\<lambda>dup. returnE (dup \<noteq> [])))
                (\<lambda>duplicate.
                   if duplicate then logE (SkipDuplicate (tx_hash (fst item)))
                   else thenE (callRPC (LineCreate payload) (srv_line_create payload))
                          (\<lambda>_. logE (LineCreated mk (tx_hash (fst item)))))))" for b
    proof (rule returning_thenE [where ?R1.0 = same_lines, OF _ _ same_lines_then_imports])
      show "returning same_lines
          (if b \<noteq> 0 then ensure_partner_accounts b env else returnE ())"
        by (intro returning_ensures same_lines_intros same_lines_ensure_partner_accounts)
    qed (rule dedup_step_returning [OF assms(2) that])
  qed
  show ?thesis
    unfolding process_transfer_def Let_def Inr sum.case
    using assms(1) by (simp add: *)
qed

lemma process_items_imports:
  assumes "\<not> dryRun c" "\<forall>item \<in> set items. trim (tx_hash (fst item)) \<noteq> ''''"
  shows "returning (imports_exactly (fst ` set items) (tokenAddress env))
           (process_items c env stId mk items)"
  using assms(2)
proof (induction items)
  case Nil
  then show ?case
    by (simp add: returning_returnE imports_exactly_refl)
next
  case (Cons item items)
  have "returning (imports_exactly ({fst item} \<union> fst ` set items) (tokenAddress env))
     (thenE (process_transfer c env stId mk item) (\<lambda>_. process_items c env stId mk items))"
  proof (rule returning_thenE [OF _ _ imports_exactly_trans])
    show "returning (imports_exactly {fst item} (tokenAddress env))
        (process_transfer c env stId mk item)"
      using Cons.prems by (intro process_transfer_imports assms(1)) simp
    show "returning (imports_exactly (fst ` set items) (tokenAddress env))
        (process_items c env stId mk items)" for x :: unit
      using Cons by simp
  qed
  then show ?case by simp
qed

lemma process_months_imports:
  assumes "\<not> dryRun c"
    and "\<forall>item \<in> set (concat (map snd byMonth)). trim (tx_hash (fst item)) \<noteq> ''''"
  shows "returning (imports_exactly (fst ` set (concat (map snd byMonth))) (tokenAddress env))
           (process_months c env byMonth)"
  using assms(2)
proof (induction byMonth)
  case Nil
  then show ?case
    by (simp add: returning_returnE imports_exactly_refl)
next
  case (Cons m byMonth)
  obtain monthKey items where m: "m = (monthKey, items)" by (cases m)
  let ?T = "fst ` set items"
  let ?U = "fst ` set (concat (map snd byMonth))"
  have tail: "returning (imports_exactly ?U (tokenAddress env)) (process_months c env byMonth)"
    using Cons by simp
  have close: "returning same_lines
      (if js_string_less monthKey (currentMonthKey env)
       then closeStatementIfNeeded stId (dryRun c) else logE (KeepingOpen monthKey))" for stId
    by (intro returning_ensures same_lines_intros same_lines_closeStatementIfNeeded
        same_lines_logE)
  have items: "returning (imports_exactly ?T (tokenAddress env))
      (process_items c env stId monthKey items)" for stId
    using Cons.prems m by (intro process_items_imports assms(1)) simp
  have "returning (imports_exactly (?T \<union> ?U) (tokenAddress env))
     (process_months c env ((monthKey, items) # byMonth))"
    unfolding process_months.simps
  proof (rule returning_thenE [where ?R1.0 = same_lines, OF _ _ same_lines_then_imports])
    show "returning same_lines
        (getOrCreateMonthlyStatement (journalId env) monthKey (dryRun c))"
      by (rule returning_ensures [OF same_lines_getOrCreateMonthlyStatement])
    show "returning (imports_exactly (?T \<union> ?U) (tokenAddress env))
       (thenE (process_items c env stId monthKey items)
          (\<lambda>_. thenE
               (if js_string_less monthKey (currentMonthKey env)
                then closeStatementIfNeeded stId (dryRun c) else logE (KeepingOpen monthKey))
               (\<lambda>_. process_months c env byMonth)))" for stId
    proof (rule returning_thenE [OF items _ imports_exactly_trans])
      show "returning (imports_exactly ?U (tokenAddress env))
         (thenE
               (if js_string_less monthKey (currentMonthKey env)
                then closeStatementIfNeeded stId (dryRun c) else logE (KeepingOpen monthKey))
               (\<lambda>_. process_months c env byMonth))" for x :: unit
        by (rule returning_thenE [OF close tail same_lines_then_imports])
    qed
  qed
  then show ?case
    by (simp add: m image_Un)
qed

lemma add_to_month_items:
  "set (concat (map snd (add_to_month mk item byMonth)))
     = insert item (set (concat (map snd byMonth)))"
  by (induction byMonth) (auto simp: add_to_month_def split: if_splits)

lemma group_by_month_items:
  "group_by_month txs byMonth = Inr result
     \<Longrightarrow> fst ` set (concat (map snd result)) = set txs \<union> fst ` set (concat (map snd byMonth))"
proof (induction txs arbitrary: byMonth)
  case Nil
  then show ?case by simp
next
  case (Cons r txs)
  from Cons.prems obtain d where d: "isoDate (tx_timeStamp r) = Inr d"
    and g: "group_by_month txs (add_to_month (monthKeyFromISO d) (r, d) byMonth) = Inr result"
    by (auto split: sum.splits)
  show ?case
    unfolding Cons.IH [OF g] add_to_month_items by auto
qed

lemma main_import_imports:
  assumes "\<not> dryRun c" "\<forall>r \<in> set txs. trim (tx_hash r) \<noteq> ''''"
  shows "returning (imports_exactly (set txs) (tokenAddress env)) (main_import c env txs)"
proof (cases "group_by_month txs []")
  case (Inl e)
  then show ?thesis
    by (simp add: main_import_def returning_throwE)
next
  case (Inr byMonth)
  have items: "fst ` set (concat (map snd byMonth)) = set txs"
    using group_by_month_items [OF Inr] by simp
  have nb: "\<forall>item \<in> set (concat (map snd byMonth)). trim (tx_hash (fst item)) \<noteq> ''''"
    using assms(2) items by (metis imageI)
  have "returning (imports_exactly (set txs) (tokenAddress env))
     (thenE (process_months c env byMonth)
        (\<lambda>_. thenE
             (closeAllPastMonthlyStatements (journalId env) (currentMonthKey env) (dryRun c))
             (\<lambda>_. logE ImportDone)))"
  proof (rule returning_thenE [OF _ _ imports_then_same_lines])
    show "returning (imports_exactly (set txs) (tokenAddress env))
        (process_months c env byMonth)"
      using process_months_imports [OF assms(1) nb, of env] items by simp
    show "returning same_lines
        (thenE
             (closeAllPastMonthlyStatements (journalId env) (currentMonthKey env) (dryRun c))
             (\<lambda>_. logE ImportDone))" for x :: unit
      by (intro returning_ensures same_lines_intros same_lines_logE
          same_lines_closeAllPastMonthlyStatements)
  qed
  then show ?thesis
    using Inr by (simp add: main_import_def)
qed

text \<open>
  Claim C1. The import identifies a transfer by its trimmed transaction hash, which it
  stores on the line as the unique import id and searches for before it creates a line; the
  key \<open>hash:index:tokenAddress\<close> is only written to the line as its payment reference. In a
  run that is not a dry run, that completes, and whose transfers all have a hash that is not
  blank: the lines of the ledger are the lines it had, followed by new ones; no two new
  lines have the same import id; the import ids of the new lines are exactly those of the
  batch that had no line before; each new line carries the import id and the key of a
  transfer of the batch. Hence a batch whose hashes all have a line already creates no line.
\<close>

theorem import_creates_one_line_per_new_hash:
  assumes "\<not> dryRun c" and "\<forall>r \<in> set txs. trim (tx_hash r) \<noteq> ''''"
    and "main_import c env txs w = (Inr (), w')"
  shows "(\<exists>new. lines w' = lines w @ new
            \<and> distinct (map ln_unique_import_id new)
            \<and> set (map ln_unique_import_id new)
                = unique_import_id_of ` set txs - set (map ln_unique_import_id (lines w))
            \<and> (\<forall>l \<in> set new. \<exists>r \<in> set txs. ln_unique_import_id l = unique_import_id_of r
                   \<and> ln_payment_ref l = dedup_key r (tokenAddress env)))
    \<and> (unique_import_id_of ` set txs \<subseteq> set (map ln_unique_import_id (lines w))
          \<longrightarrow> lines w' = lines w)"
proof -
  from returningD [OF main_import_imports [OF assms(1,2)] assms(3)]
  have "imports_exactly (set txs) (tokenAddress env) w w'" .
  then obtain new where new: "lines w' = lines w @ new"
    "distinct (map ln_unique_import_id new)"
    "set (map ln_unique_import_id new)
       = unique_import_id_of ` set txs - set (map ln_unique_import_id (lines w))"
    "\<forall>l \<in> set new. \<exists>r \<in> set txs. ln_unique_import_id l = unique_import_id_of r
        \<and> ln_payment_ref l = dedup_key r (tokenAddress env)"
    unfolding imports_exactly_def by (elim exE conjE)
  have "lines w' = lines w"
    if "unique_import_id_of ` set txs \<subseteq> set (map ln_unique_import_id (lines w))"
  proof -
    from that
    have none: "unique_import_id_of ` set txs - set (map ln_unique_import_id (lines w)) = {}"
      by (simp only: Diff_eq_empty_iff)
    have "set (map ln_unique_import_id new) = {}"
      using new(3) unfolding none .
    then have "new = []"
      by simp
    then show ?thesis
      using new(1) by simp
  qed
  then show ?thesis
    by (intro conjI impI exI [of _ new] new)
qed

theorem import_creates_one_line_per_new_hash_witness:
  "\<not> dryRun example_client
   \<and> trim (tx_hash incoming_transfer) \<noteq> '''' \<and> trim (tx_hash outgoing_transfer) \<noteq> ''''
   \<and> fst (main_import example_client example_env [incoming_transfer, outgoing_transfer]
        empty_ledger) = Inr ()
   \<and> distinct (map ln_unique_import_id
        (lines (snd (main_import example_client example_env
           [incoming_transfer, outgoing_transfer] empty_ledger))))
   \<and> set (map ln_unique_import_id
        (lines (snd (main_import example_client example_env
           [incoming_transfer, outgoing_transfer] empty_ledger))))
       = {Some ''0xaa'', Some ''0xbb''}"
proof -
  let ?run = "main_import example_client example_env [incoming_transfer, outgoing_transfer]
    empty_ledger"
  have h1: "\<not> dryRun example_client"
    by (simp add: example_client_def)
  have h2: "trim (tx_hash incoming_transfer) \<noteq> ''''" "trim (tx_hash outgoing_transfer) \<noteq> ''''"
    by code_simp+
  then have h2': "\<forall>r \<in> set [incoming_transfer, outgoing_transfer]. trim (tx_hash r) \<noteq> ''''"
    by simp
  have h3: "fst ?run = Inr ()"
    by code_simp
  then have run: "?run = (Inr (), snd ?run)"
    by (metis prod.collapse)
  have ids: "unique_import_id_of incoming_transfer = Some ''0xaa''"
    "unique_import_id_of outgoing_transfer = Some ''0xbb''"
    by code_simp+
  from import_creates_one_line_per_new_hash [OF h1 h2' run, THEN conjunct1]
  obtain new where new: "lines (snd ?run) = lines empty_ledger @ new"
    "distinct (map ln_unique_import_id new)"
    "set (map ln_unique_import_id new)
       = unique_import_id_of ` set [incoming_transfer, outgoing_transfer]
           - set (map ln_unique_import_id (lines empty_ledger))"
    by blast
  have "lines (snd ?run) = new"
    using new(1) by (simp add: empty_ledger_def)
  then have "distinct (map ln_unique_import_id (lines (snd ?run)))
      \<and> set (map ln_unique_import_id (lines (snd ?run))) = {Some ''0xaa'', Some ''0xbb''}"
    using new(2,3) ids by (simp add: empty_ledger_def)
  with h1 h2 h3 show ?thesis
    by simp
qed

text \<open>
  The incoming transfer is imported and then presented again with another transaction
  index: its key \<open>0xaa:9:0x420C\<close> has no line, the only line of the ledger carrying the key
  \<open>0xaa:1:0x420C\<close>, and yet the second import creates no line for it, because the hash has
  one.
\<close>

theorem dedup_key_counterexample:
  "map ln_payment_ref
      (lines (snd (main_import example_client example_env [incoming_transfer] empty_ledger)))
     = [''0xaa:1:0x420C'']
   \<and> dedup_key reorganized_transfer (tokenAddress example_env) = ''0xaa:9:0x420C''
   \<and> fst (main_import example_client example_env [reorganized_transfer]
        (snd (main_import example_client example_env [incoming_transfer] empty_ledger)))
     = Inr ()
   \<and> map ln_payment_ref
      (lines (snd (main_import example_client example_env [reorganized_transfer]
        (snd (main_import example_client example_env [incoming_transfer] empty_ledger)))))
     = [''0xaa:1:0x420C'']"
  by code_simp

section \<open>The closing sweep\<close>

lemma updates_within_preorder: "preorder_on_worlds (updates_within S)"
  unfolding preorder_on_worlds_def updates_within_def
  by (auto simp: ball_Un)

lemma updates_within_mono: "updates_within S w w' \<Longrightarrow> S \<subseteq> T \<Longrightarrow> updates_within T w w'"
  unfolding updates_within_def by blast


lemma past_period_keys:
  "past_period j cur w i \<longleftrightarrow>
     (\<exists>name. (i, j, name) \<in> set (map statement_key (statements w))
        \<and> take 5 name = ''Feed '' \<and> js_string_less (drop 5 name) cur)"
  unfolding past_period_def list_ex_iff statement_key_def by force

lemma past_period_later:
  assumes "updates_within S w w'" "past_period j cur w i"
  shows "past_period j cur w' i"
proof -
  from assms(1) obtain more where
    "map statement_key (statements w') = map statement_key (statements w) @ more"
    unfolding updates_within_def by blast
  then have "set (map statement_key (statements w)) \<subseteq> set (map statement_key (statements w'))"
    by simp
  with assms(2) show ?thesis
    unfolding past_period_keys by blast
qed

lemma closes_only_past_preorder: "preorder_on_worlds (closes_only_past j cur)"
proof -
  have "closes_only_past j cur w w" for w
    using updates_within_preorder [of "{i. past_period j cur w i}"]
    by (simp add: closes_only_past_def preorder_on_worlds_def)
  moreover have "closes_only_past j cur a c"
    if ab: "closes_only_past j cur a b" and bc: "closes_only_past j cur b c" for a b c
  proof -
    have "{i. past_period j cur b i} \<subseteq> {i. past_period j cur c i}"
      using past_period_later bc unfolding closes_only_past_def by blast
    with ab have "updates_within {i. past_period j cur c i} a b"
      unfolding closes_only_past_def by (rule updates_within_mono)
    with bc show ?thesis
      using updates_within_preorder [of "{i. past_period j cur c i}"]
      unfolding closes_only_past_def preorder_on_worlds_def by blast
  qed
  ultimately show ?thesis
    unfolding preorder_on_worlds_def by blast
qed

lemma closes_only_past_trans:
  "closes_only_past j cur a b \<Longrightarrow> closes_only_past j cur b c \<Longrightarrow> closes_only_past j cur a c"
  using closes_only_past_preorder [of j cur] unfolding preorder_on_worlds_def by blast









lemma statement_key_update [simp]:
  "statement_key (s\<lparr>st_balance_end_real := e\<rparr>) = statement_key s"
  "statement_key (s\<lparr>st_posted := p\<rparr>) = statement_key s"
  "statement_key \<circ> (\<lambda>s. if st_id s = i then s\<lparr>st_balance_end_real := e\<rparr> else s)
     = statement_key"
  "statement_key \<circ> (\<lambda>s. if st_id s = i then s\<lparr>st_posted := p\<rparr> else s) = statement_key"
  by (auto simp: statement_key_def fun_eq_iff)























subsection \<open>The sweep reaches every past period\<close>














subsection \<open>A past period whose post does not raise ends posted\<close>



























section \<open>The gateway refuses to work unauthenticated\<close>

lemma calls_grow_preorder: "preorder_on_worlds calls_grow"
  unfolding preorder_on_worlds_def calls_grow_def by auto

lemmas calls_grow_intros =
  ensures_thenE [OF calls_grow_preorder] ensures_catchE [OF calls_grow_preorder]
  ensures_returnE [OF calls_grow_preorder] ensures_throwE [OF calls_grow_preorder]
  ensures_if ensures_case_list ensures_case_option

lemma calls_grow_logE: "ensures calls_grow (logE l)"
  by (simp add: ensures_def logE_def calls_grow_def)

lemma calls_grow_callRPC:
  assumes "\<And>w. calls (snd (answer w)) = calls w"
  shows "ensures calls_grow (callRPC req answer)"
  by (rule ensures_callRPC [OF calls_grow_preorder]) (simp_all add: calls_grow_def assms)

lemma first_call_issued:
  assumes answer: "\<And>w. calls (snd (answer w)) = calls w"
    and rest: "\<And>x. ensures calls_grow (g x)"
  shows "\<exists>cs. calls (snd (thenE (callRPC req answer) g w)) = calls w @ req # cs"
proof (cases "length (calls w) \<in> set (faults w)")
  case True
  then show ?thesis
    by (simp add: thenE_def callRPC_def Let_def)
next
  case False
  let ?w1 = "w\<lparr>calls := calls w @ [req]\<rparr>"
  obtain x w2 where a: "answer ?w1 = (x, w2)"
    by (cases "answer ?w1")
  have w2: "calls w2 = calls w @ [req]"
    using answer [of ?w1] a by simp
  have "calls_grow w2 (snd (g x w2))"
    using rest [of x] by (simp add: ensures_def)
  then obtain cs where "calls (snd (g x w2)) = calls w2 @ cs"
    by (auto simp: calls_grow_def)
  then show ?thesis
    using False a w2 by (simp add: thenE_def callRPC_def Let_def)
qed

lemma calls_grow_sumStatementLineAmounts: "ensures calls_grow (sumStatementLineAmounts sid)"
  unfolding sumStatementLineAmounts_def Let_def
  by (intro calls_grow_intros calls_grow_callRPC)
     (simp add: srv_line_search_read_statement_def)

lemma calls_grow_closeStatementIfNeeded: "ensures calls_grow (closeStatementIfNeeded sid dry)"
  unfolding closeStatementIfNeeded_def Let_def
  by (intro calls_grow_intros calls_grow_callRPC calls_grow_logE
        calls_grow_sumStatementLineAmounts)
     (simp_all add: srv_statement_read_def srv_statement_write_def
        srv_statement_button_post_def)

lemma calls_grow_close_past: "ensures calls_grow (close_past rows cur dry)"
  by (induction rows cur dry rule: close_past.induct)
     (auto intro!: calls_grow_intros calls_grow_closeStatementIfNeeded)

lemma script_getOrCreateMonthlyStatement_first:
  "\<exists>cs. calls (snd (getOrCreateMonthlyStatement jid monthKey dry w))
     = calls w @ StatementSearchReadName jid (''Feed '' @ monthKey) # cs"
  unfolding getOrCreateMonthlyStatement_def Let_def
  by (rule first_call_issued)
     (auto intro!: calls_grow_intros calls_grow_callRPC calls_grow_logE
        simp: srv_statement_search_read_name_def srv_statement_create_def split: list.splits)

lemma script_sumStatementLineAmounts_first:
  "\<exists>cs. calls (snd (sumStatementLineAmounts statementId w))
     = calls w @ LineSearchReadStatement statementId # cs"
  unfolding sumStatementLineAmounts_def Let_def
  by (rule first_call_issued)
     (auto intro!: calls_grow_intros simp: srv_line_search_read_statement_def)

lemma script_closeStatementIfNeeded_first:
  "\<exists>cs. calls (snd (closeStatementIfNeeded statementId dry w))
     = calls w @ StatementRead statementId # cs"
  unfolding closeStatementIfNeeded_def Let_def
  by (rule first_call_issued)
     (auto intro!: calls_grow_intros calls_grow_callRPC calls_grow_logE
        calls_grow_sumStatementLineAmounts
        simp: srv_statement_read_def srv_statement_write_def srv_statement_button_post_def
        split: list.splits option.splits)

lemma script_closeAllPastMonthlyStatements_first:
  "\<exists>cs. calls (snd (closeAllPastMonthlyStatements jid cur dry w))
     = calls w @ StatementSearchReadJournal jid # cs"
  unfolding closeAllPastMonthlyStatements_def
  by (rule first_call_issued)
     (auto intro!: calls_grow_close_past simp: srv_statement_search_read_journal_def)

text \<open>
  Claim C6. Every public operation of the class \<open>OdooClient\<close> other than \<open>authenticate\<close>
  (the latest transactions, the journals, the latest invoices, the details of an invoice,
  the existence of a journal entry, creating and posting a journal entry, an account by
  name, the accounts, a partner by bank identifier or by name, a bank account by
  identifier, creating a partner or a bank account, and the find-or-create of a bank
  account) raises \<open>Not authenticated. Call authenticate() first.\<close> when the uid is unset,
  and leaves the world as it was: no remote call has been issued. The operations that the
  import script derives from the remote-call primitive through its own helper have no
  such check and do not even look at the client: finding or creating the period, summing
  its lines, closing it (which writes the balance and posts) and listing the periods of the
  journal each issue their first remote call whatever the uid is.
\<close>

theorem unauthenticated_operations_raise:
  "(\<not> truthy_id (uid c) \<longrightarrow>
      getLatestTransactions c journal limit w
           = (Inl (Error ''Not authenticated. Call authenticate() first.''), w)
    \<and> getJournals c w
           = (Inl (Error ''Not authenticated. Call authenticate() first.''), w)
    \<and> getLatestInvoices c limit direction since until w
           = (Inl (Error ''Not authenticated. Call authenticate() first.''), w)
    \<and> getInvoiceDetails c invoiceId w
           = (Inl (Error ''Not authenticated. Call authenticate() first.''), w)
    \<and> checkJournalEntryExists c r w
           = (Inl (Error ''Not authenticated. Call authenticate() first.''), w)
    \<and> createJournalEntry c entry w
           = (Inl (Error ''Not authenticated. Call authenticate() first.''), w)
    \<and> getAccountIdByName c account w
           = (Inl (Error ''Not authenticated. Call authenticate() first.''), w)
    \<and> postJournalEntry c moveId w
           = (Inl (Error ''Not authenticated. Call authenticate() first.''), w)
    \<and> getAccounts c w
           = (Inl (Error ''Not authenticated. Call authenticate() first.''), w)
    \<and> getPartnerIdByBankIdentifier c identifier w
           = (Inl (Error ''Not authenticated. Call authenticate() first.''), w)
    \<and> getPartnerIdByName c name w
           = (Inl (Error ''Not authenticated. Call authenticate() first.''), w)
    \<and> findBankAccountByIdentifier c identifier w
           = (Inl (Error ''Not authenticated. Call authenticate() first.''), w)
    \<and> createPartner c name address receivable payable w
           = (Inl (Error ''Not authenticated. Call authenticate() first.''), w)
    \<and> createBankAccount c iban partnerId accountName w
           = (Inl (Error ''Not authenticated. Call authenticate() first.''), w)
    \<and> findOrCreateBankAccount c identifier name address w
           = (Inl (Error ''Not authenticated. Call authenticate() first.''), w))
   \<and> (\<exists>cs. calls (snd (getOrCreateMonthlyStatement jid monthKey dry w))
          = calls w @ StatementSearchReadName jid (''Feed '' @ monthKey) # cs)
   \<and> (\<exists>cs. calls (snd (sumStatementLineAmounts statementId w))
          = calls w @ LineSearchReadStatement statementId # cs)
   \<and> (\<exists>cs. calls (snd (closeStatementIfNeeded statementId dry w))
          = calls w @ StatementRead statementId # cs)
   \<and> (\<exists>cs. calls (snd (closeAllPastMonthlyStatements jid cur dry w))
          = calls w @ StatementSearchReadJournal jid # cs)"
proof (intro conjI impI)
  assume u: "\<not> truthy_id (uid c)"
  note defs = throwE_def thenE_def not_authenticated_def
  show "getLatestTransactions c journal limit w
      = (Inl (Error ''Not authenticated. Call authenticate() first.''), w)"
    using u by (simp add: getLatestTransactions_def defs)
  show "getJournals c w = (Inl (Error ''Not authenticated. Call authenticate() first.''), w)"
    using u by (simp add: getJournals_def defs)
  show "getLatestInvoices c limit direction since until w
      = (Inl (Error ''Not authenticated. Call authenticate() first.''), w)"
    using u by (simp add: getLatestInvoices_def defs)
  show "getInvoiceDetails c invoiceId w
      = (Inl (Error ''Not authenticated. Call authenticate() first.''), w)"
    using u by (simp add: getInvoiceDetails_def defs)
  show "checkJournalEntryExists c r w
      = (Inl (Error ''Not authenticated. Call authenticate() first.''), w)"
    using u by (simp add: checkJournalEntryExists_def defs)
  show "createJournalEntry c entry w
      = (Inl (Error ''Not authenticated. Call authenticate() first.''), w)"
    using u by (simp add: createJournalEntry_def defs)
  show "getAccountIdByName c account w
      = (Inl (Error ''Not authenticated. Call authenticate() first.''), w)"
    using u by (simp add: getAccountIdByName_def defs)
  show "postJournalEntry c moveId w
      = (Inl (Error ''Not authenticated. Call authenticate() first.''), w)"
    using u by (simp add: postJournalEntry_def defs)
  show "getAccounts c w = (Inl (Error ''Not authenticated. Call authenticate() first.''), w)"
    using u by (simp add: getAccounts_def defs)
  show "getPartnerIdByBankIdentifier c identifier w
      = (Inl (Error ''Not authenticated. Call authenticate() first.''), w)"
    using u by (simp add: getPartnerIdByBankIdentifier_def defs)
  show "getPartnerIdByName c name w
      = (Inl (Error ''Not authenticated. Call authenticate() first.''), w)"
    using u by (simp add: getPartnerIdByName_def defs)
  show "findBankAccountByIdentifier c identifier w
      = (Inl (Error ''Not authenticated. Call authenticate() first.''), w)"
    using u by (simp add: findBankAccountByIdentifier_def defs)
  show "createPartner c name address receivable payable w
      = (Inl (Error ''Not authenticated. Call authenticate() first.''), w)"
    using u by (simp add: createPartner_def defs)
  show "createBankAccount c iban partnerId accountName w
      = (Inl (Error ''Not authenticated. Call authenticate() first.''), w)"
    using u by (simp add: createBankAccount_def defs)
  show "findOrCreateBankAccount c identifier name address w
      = (Inl (Error ''Not authenticated. Call authenticate() first.''), w)"
    using u by (simp add: findOrCreateBankAccount_def findBankAccountByIdentifier_def defs)
next
  show "\<exists>cs. calls (snd (getOrCreateMonthlyStatement jid monthKey dry w))
      = calls w @ StatementSearchReadName jid (''Feed '' @ monthKey) # cs"
    by (rule script_getOrCreateMonthlyStatement_first)
  show "\<exists>cs. calls (snd (sumStatementLineAmounts statementId w))
      = calls w @ LineSearchReadStatement statementId # cs"
    by (rule script_sumStatementLineAmounts_first)
  show "\<exists>cs. calls (snd (closeStatementIfNeeded statementId dry w))
      = calls w @ StatementRead statementId # cs"
    by (rule script_closeStatementIfNeeded_first)
  show "\<exists>cs. calls (snd (closeAllPastMonthlyStatements jid cur dry w))
      = calls w @ StatementSearchReadJournal jid # cs"
    by (rule script_closeAllPastMonthlyStatements_first)
qed

theorem unauthenticated_operations_raise_witness:
  "\<not> truthy_id (uid (new_OdooClient example_config False))
   \<and> getLatestTransactions (new_OdooClient example_config False) 55 10 empty_ledger
        = (Inl (Error ''Not authenticated. Call authenticate() first.''), empty_ledger)
   \<and> getInvoiceDetails (new_OdooClient example_config False) 7 empty_ledger
        = (Inl (Error ''Not authenticated. Call authenticate() first.''), empty_ledger)
   \<and> createPartner (new_OdooClient example_config False) ''Unknown'' None (Some 7) (Some 8)
        empty_ledger
        = (Inl (Error ''Not authenticated. Call authenticate() first.''), empty_ledger)
   \<and> calls (snd (createPartner (new_OdooClient example_config False) ''Unknown'' None
        (Some 7) (Some 8) empty_ledger)) = []"
proof -
  let ?c = "new_OdooClient example_config False"
  have h: "\<not> truthy_id (uid ?c)"
    by (simp add: new_OdooClient_def truthy_id_def)
  have e: "calls empty_ledger = []"
    by (simp add: empty_ledger_def)
  note raise = unauthenticated_operations_raise [where c = ?c and w = empty_ledger,
      THEN conjunct1, rule_format, OF h]
  from raise [where journal = 55 and limit = 10]
  have 1: "getLatestTransactions ?c 55 10 empty_ledger
      = (Inl (Error ''Not authenticated. Call authenticate() first.''), empty_ledger)"
    by simp
  from raise [where invoiceId = 7]
  have 2: "getInvoiceDetails ?c 7 empty_ledger
      = (Inl (Error ''Not authenticated. Call authenticate() first.''), empty_ledger)"
    by simp
  from raise [where name = "''Unknown''" and address = None and receivable = "Some 7"
      and payable = "Some 8"]
  have 3: "createPartner ?c ''Unknown'' None (Some 7) (Some 8) empty_ledger
      = (Inl (Error ''Not authenticated. Call authenticate() first.''), empty_ledger)"
    by simp
  from h 1 2 3 e show ?thesis
    by simp
qed

text \<open>
  The constructor leaves the uid unset. With such a client the import of an empty batch
  into a ledger whose only period is that of September 2024 completes: it lists the
  periods, reads the period, sums its lines, writes the closing balance and posts, and
  nothing raises. The import of one transfer into an empty ledger searches the period and
  creates it before the client's bank-account lookup raises. And when the remote refuses
  the first call, the run ends in the error of the remote, after the call was issued.
\<close>

theorem unguarded_script_operations_counterexample:
  "uid (new_OdooClient example_config False) = None
   \<and> fst (main_import (new_OdooClient example_config False) example_env []
        (ledger_with_period None None [1])) = Inr ()
   \<and> calls (snd (main_import (new_OdooClient example_config False) example_env []
        (ledger_with_period None None [1]))) =
        [StatementSearchReadJournal 55, StatementRead 40, LineSearchReadStatement 40,
         StatementWrite 40 1, StatementButtonPost 40]
   \<and> map st_posted (statements (snd (main_import (new_OdooClient example_config False)
        example_env [] (ledger_with_period None None [1])))) = [True]
   \<and> fst (main_import (new_OdooClient example_config False) example_env [incoming_transfer]
        empty_ledger) = Inl (Error ''Not authenticated. Call authenticate() first.'')
   \<and> calls (snd (main_import (new_OdooClient example_config False) example_env
        [incoming_transfer] empty_ledger)) =
        [StatementSearchReadName 55 ''Feed 2024-09'',
         StatementCreate ''Feed 2024-09'' 55 ''2024-09-01'']
   \<and> fst (main_import (new_OdooClient example_config False) example_env []
        ((ledger_with_period None None [1])\<lparr>faults := [0]\<rparr>)) = Inl (Error ''Odoo error'')
   \<and> calls (snd (main_import (new_OdooClient example_config False) example_env []
        ((ledger_with_period None None [1])\<lparr>faults := [0]\<rparr>))) =
        [StatementSearchReadJournal 55]"
  by code_simp

end
